theory Spec2Isabelle
  imports Main
begin

section \<open>Values thrown by JavaScript code\<close>

text \<open>
  A JavaScript \<^verbatim>\<open>throw\<close> (or a rejected promise) carries any value. The code under
  study inspects a thrown value in two ways: \<^verbatim>\<open>error instanceof Error ? error.message : String(error)\<close>
  and \<^verbatim>\<open>(err as Error).message\<close>. Four kinds of value behave differently there:
  an \<^verbatim>\<open>Error\<close> instance with its message, \<^verbatim>\<open>null\<close>, \<^verbatim>\<open>undefined\<close>, and any
  other value, which is given by the text \<^verbatim>\<open>String(v)\<close> renders and has no
  \<^verbatim>\<open>message\<close> property.
\<close>

datatype js_thrown =
    JsError string string
  | JsNull
  | JsUndefined
  | JsOther string

text \<open>
  \<open>JsError n m\<close> is an \<^verbatim>\<open>Error\<close> instance with \<^verbatim>\<open>name\<close> \<open>n\<close> and \<^verbatim>\<open>message\<close> \<open>m\<close>.
  \<^verbatim>\<open>String(v)\<close> (also what a template literal inserts) follows
  \<^verbatim>\<open>Error.prototype.toString\<close> on an error.
\<close>

definition js_String :: "js_thrown \<Rightarrow> string" where
  "js_String v =
     (case v of
        JsError n m \<Rightarrow> (if n = [] then m else if m = [] then n else n @ '': '' @ m)
      | JsNull \<Rightarrow> ''null''
      | JsUndefined \<Rightarrow> ''undefined''
      | JsOther s \<Rightarrow> s)"

text \<open>The truthiness of an optional string: \<^verbatim>\<open>undefined\<close> and \<^verbatim>\<open>''\<close> are falsy.\<close>

definition truthy :: "string option \<Rightarrow> bool" where
  "truthy v = (case v of None \<Rightarrow> False | Some s \<Rightarrow> s \<noteq> [])"

section \<open>Configuration (config.ts)\<close>

record Viewport =
  width :: nat
  height :: nat

record Config =
  browserUrl :: "string option"
  wsEndpoint :: "string option"
  wsHeaders :: "(string \<times> string) list option"
  headless :: bool
  executablePath :: "string option"
  channel :: "string option"
  isolated :: bool
  viewport :: "Viewport option"
  chromeArg :: "string list option"
  proxyServer :: "string option"
  acceptInsecureCerts :: "bool option"
  port :: "nat option"
  version :: string
  logFile :: "string option"
  experimentalDevtools :: "bool option"
  experimentalIncludeAllPages :: "bool option"
  categoryEmulation :: bool
  categoryPerformance :: bool
  categoryNetwork :: bool
  nodeEnv :: string
  isProduction :: bool

text \<open>
  The parsed command line (\<^verbatim>\<open>args: Record<string, unknown>\<close>), read at the types
  \<^verbatim>\<open>loadConfig\<close> uses its entries at. \<^verbatim>\<open>None\<close> is an entry that is not set
  (\<^verbatim>\<open>undefined\<close>).
\<close>

record Args =
  arg_browserUrl :: "string option"
  arg_wsEndpoint :: "string option"
  arg_wsHeaders :: "(string \<times> string) list option"
  arg_headless :: "bool option"
  arg_executablePath :: "string option"
  arg_channel :: "string option"
  arg_isolated :: "bool option"
  arg_viewport :: "Viewport option"
  arg_chromeArg :: "string list option"
  arg_proxyServer :: "string option"
  arg_acceptInsecureCerts :: "bool option"
  arg_port :: "nat option"
  arg_logFile :: "string option"
  arg_experimentalDevtools :: "bool option"
  arg_experimentalIncludeAllPages :: "bool option"
  arg_categoryEmulation :: "bool option"
  arg_categoryPerformance :: "bool option"
  arg_categoryNetwork :: "bool option"

text \<open>\<^verbatim>\<open>a ?? b\<close>: the left operand unless it is null or undefined.\<close>

definition nullish_or :: "'a option \<Rightarrow> 'a \<Rightarrow> 'a" where
  "nullish_or a b = (case a of None \<Rightarrow> b | Some v \<Rightarrow> v)"

text \<open>\<^verbatim>\<open>x !== false\<close> on an optional boolean.\<close>

definition not_false :: "bool option \<Rightarrow> bool" where
  "not_false a = (a \<noteq> Some False)"

text \<open>
  \<^verbatim>\<open>loadConfig(args, version)\<close>; the first parameter is \<^verbatim>\<open>process.env.NODE_ENV\<close>.
  \<^verbatim>\<open>args.port ? parseInt(args.port, 10) : undefined\<close>: a port of 0 is falsy.
\<close>

definition loadConfig :: "string option \<Rightarrow> Args \<Rightarrow> string \<Rightarrow> Config" where
  "loadConfig NODE_ENV args ver =
     (let nodeEnv' = (if NODE_ENV = Some ''production'' then ''production'' else ''development'')
      in \<lparr> browserUrl = arg_browserUrl args,
           wsEndpoint = arg_wsEndpoint args,
           wsHeaders = arg_wsHeaders args,
           headless = nullish_or (arg_headless args) False,
           executablePath = arg_executablePath args,
           channel = arg_channel args,
           isolated = nullish_or (arg_isolated args) False,
           viewport = arg_viewport args,
           chromeArg = arg_chromeArg args,
           proxyServer = arg_proxyServer args,
           acceptInsecureCerts = arg_acceptInsecureCerts args,
           port = (case arg_port args of
                     None \<Rightarrow> None
                   | Some p \<Rightarrow> if p = 0 then None else Some p),
           version = ver,
           logFile = arg_logFile args,
           experimentalDevtools = Some (nullish_or (arg_experimentalDevtools args) False),
           experimentalIncludeAllPages =
             Some (nullish_or (arg_experimentalIncludeAllPages args) False),
           categoryEmulation = not_false (arg_categoryEmulation args),
           categoryPerformance = not_false (arg_categoryPerformance args),
           categoryNetwork = not_false (arg_categoryNetwork args),
           nodeEnv = nodeEnv',
           isProduction = (nodeEnv' = ''production'') \<rparr>)"

section \<open>Tool definitions and the catalogue (server.ts)\<close>

text \<open>
  Modelled from the spec: the enumeration \<^verbatim>\<open>ToolCategory\<close> of
  \<^verbatim>\<open>tools/categories.ts\<close>, which is not among the sources. The spec gives it as
  \<^verbatim>\<open>enum{EMULATION, PERFORMANCE, NETWORK, OTHER...}\<close>; every further category is
  \<open>OTHER\<close> with its name.
\<close>

datatype ToolCategory = EMULATION | PERFORMANCE | NETWORK | OTHER string

record ToolAnnotations =
  category :: ToolCategory

text \<open>
  The fields of a \<^verbatim>\<open>ToolDefinition\<close> that \<^verbatim>\<open>createServer\<close> reads. The schema is
  passed to the protocol SDK untouched and is left out; the handler is a function of
  the tool module, and what one run of it does enters the model of an invocation as
  its outcome.
\<close>

record ToolDefinition =
  name :: string
  description :: string
  annotations :: ToolAnnotations

text \<open>
  The protocol SDK's server object, as far as \<^verbatim>\<open>createServer\<close> fills it: the tools
  registered on it, in the order of registration. \<^verbatim>\<open>server.registerTool\<close> adds one.
\<close>

record McpServer =
  registeredTools :: "ToolDefinition list"

definition server_registerTool :: "ToolDefinition \<Rightarrow> McpServer \<Rightarrow> McpServer" where
  "server_registerTool tool server =
     server\<lparr>registeredTools := registeredTools server @ [tool]\<rparr>"

text \<open>\<^verbatim>\<open>registerTool(tool)\<close>: three early returns, then the registration.\<close>

definition registerTool :: "Config \<Rightarrow> ToolDefinition \<Rightarrow> McpServer \<Rightarrow> McpServer" where
  "registerTool config tool server =
     (if category (annotations tool) = EMULATION \<and> categoryEmulation config = False
      then server
      else if category (annotations tool) = PERFORMANCE \<and> categoryPerformance config = False
      then server
      else if category (annotations tool) = NETWORK \<and> categoryNetwork config = False
      then server
      else server_registerTool tool server)"

text \<open>
  \<^verbatim>\<open>Array.prototype.sort(compare)\<close>: a stable sort. For a comparator that is
  consistent (a total preorder) the language fixes the result, which is the one a
  stable insertion sort computes; for an inconsistent comparator the order is
  implementation-defined, and nothing is claimed there.
\<close>

fun insert_by :: "('a \<Rightarrow> 'a \<Rightarrow> int) \<Rightarrow> 'a \<Rightarrow> 'a list \<Rightarrow> 'a list" where
  "insert_by cmp x [] = [x]"
| "insert_by cmp x (y # ys) =
     (if cmp x y \<le> 0 then x # y # ys else y # insert_by cmp x ys)"

definition array_sort :: "('a \<Rightarrow> 'a \<Rightarrow> int) \<Rightarrow> 'a list \<Rightarrow> 'a list" where
  "array_sort cmp xs = foldr (insert_by cmp) xs []"

text \<open>
  The comparator of \<^verbatim>\<open>tools.sort\<close>: \<^verbatim>\<open>a.name.localeCompare(b.name)\<close>. The collation
  \<open>localeCompare\<close> belongs to the runtime and is a parameter.
\<close>

definition compareTools ::
  "(string \<Rightarrow> string \<Rightarrow> int) \<Rightarrow> ToolDefinition \<Rightarrow> ToolDefinition \<Rightarrow> int" where
  "compareTools localeCompare a b = localeCompare (name a) (name b)"

text \<open>
  \<^verbatim>\<open>createServer(config)\<close>, as far as the catalogue goes: \<open>tools\<close> is the array
  collected from the tool modules, sorted in place and registered one by one.
\<close>

definition createServer ::
  "Config \<Rightarrow> (string \<Rightarrow> string \<Rightarrow> int) \<Rightarrow> ToolDefinition list \<Rightarrow> McpServer" where
  "createServer config localeCompare tools =
     foldl (\<lambda>server tool. registerTool config tool server)
       \<lparr>registeredTools = []\<rparr>
       (array_sort (compareTools localeCompare) tools)"

subsection \<open>The context resolver\<close>

record ConnectOptions =
  co_browserURL :: "string option"
  co_wsEndpoint :: "string option"
  co_wsHeaders :: "(string \<times> string) list option"
  co_devtools :: bool

record LaunchOptions =
  lo_headless :: bool
  lo_executablePath :: "string option"
  lo_channel :: "string option"
  lo_isolated :: bool
  lo_viewport :: "Viewport option"
  lo_args :: "string list"
  lo_acceptInsecureCerts :: "bool option"
  lo_devtools :: bool

text \<open>
  The two entry points of \<^verbatim>\<open>browser.ts\<close> (not among the sources) with the options
  \<^verbatim>\<open>getContext\<close> passes. What the call does in one run, a browser handle or a
  throw, belongs to the run's environment.
\<close>

datatype BrowserCall =
    EnsureBrowserConnected ConnectOptions
  | EnsureBrowserLaunched LaunchOptions

text \<open>
  Modelled from the spec: \<^verbatim>\<open>McpContext\<close> (the spec's AutomationContext; its class is
  not among the sources) "wraps the live connection to the automation target": an
  object with an identity of its own that holds the browser handle
  \<^verbatim>\<open>McpContext.from\<close> was given. Handles and objects are compared by identity
  (\<^verbatim>\<open>!==\<close>), so each is a number.
\<close>

record McpContext =
  ctx_id :: nat
  browser :: nat

datatype Content = TextContent string | ImageContent string string

record CallToolResult =
  content :: "Content list"
  isError :: "bool option"

text \<open>
  What the collaborators do during one tool invocation: the browser module, the
  construction of a context, \<^verbatim>\<open>detectOpenDevToolsWindows\<close>, the tool's handler and
  \<^verbatim>\<open>McpResponse.handle\<close>. \<open>None\<close> is a normal return, \<open>Some e\<close> and \<open>Inl e\<close>
  a throw of \<open>e\<close>.
\<close>

record Env =
  ensureBrowser :: "BrowserCall \<Rightarrow> js_thrown + nat"
  contextFrom :: "nat \<Rightarrow> js_thrown option"
  detectOpenDevToolsWindows :: "js_thrown option"
  handler :: "js_thrown option"
  handle :: "js_thrown + Content list"

text \<open>
  The variables \<^verbatim>\<open>createServer\<close> closes over: \<^verbatim>\<open>let context: McpContext\<close>
  (unset at first; \<open>context'\<close> here) and the supply of object identities.
\<close>

record ContextState =
  context' :: "McpContext option"
  nextObject :: nat

definition browserCall :: "Config \<Rightarrow> BrowserCall" where
  "browserCall config =
     (let extraArgs = nullish_or (chromeArg config) [] @
            (if truthy (proxyServer config)
             then [''--proxy-server='' @ nullish_or (proxyServer config) []] else []);
          devtools = nullish_or (experimentalDevtools config) False
      in if truthy (browserUrl config) \<or> truthy (wsEndpoint config)
         then EnsureBrowserConnected
                \<lparr> co_browserURL = browserUrl config,
                  co_wsEndpoint = wsEndpoint config,
                  co_wsHeaders = wsHeaders config,
                  co_devtools = devtools \<rparr>
         else EnsureBrowserLaunched
                \<lparr> lo_headless = headless config,
                  lo_executablePath = executablePath config,
                  lo_channel = channel config,
                  lo_isolated = isolated config,
                  lo_viewport = viewport config,
                  lo_args = extraArgs,
                  lo_acceptInsecureCerts = acceptInsecureCerts config,
                  lo_devtools = devtools \<rparr>)"

text \<open>\<^verbatim>\<open>context = await McpContext.from(browser, ...)\<close>: the assignment happens only
  when the construction returns.\<close>

definition buildContext ::
  "Env \<Rightarrow> nat \<Rightarrow> ContextState \<Rightarrow> (js_thrown + McpContext) \<times> ContextState" where
  "buildContext env b st =
     (case contextFrom env b of
        Some e \<Rightarrow> (Inl e, st)
      | None \<Rightarrow>
          (let c = \<lparr>ctx_id = nextObject st, browser = b\<rparr>
           in (Inr c, st\<lparr>context' := Some c, nextObject := Suc (nextObject st)\<rparr>)))"

text \<open>\<^verbatim>\<open>getContext()\<close>. \<^verbatim>\<open>context?.browser !== browser\<close> holds when no context is
  there yet.\<close>

definition getContext ::
  "Config \<Rightarrow> Env \<Rightarrow> ContextState \<Rightarrow> (js_thrown + McpContext) \<times> ContextState" where
  "getContext config env st =
     (case ensureBrowser env (browserCall config) of
        Inl e \<Rightarrow> (Inl e, st)
      | Inr b \<Rightarrow>
          (case context' st of
             None \<Rightarrow> buildContext env b st
           | Some c \<Rightarrow>
               if browser c \<noteq> b then buildContext env b st else (Inr c, st)))"

section \<open>The HTTP transport (transport/http.ts)\<close>

text \<open>
  What the transport reads of an \<^verbatim>\<open>IncomingMessage\<close>: the path of its URL, its
  method and the header \<^verbatim>\<open>mcp-session-id\<close> (\<open>None\<close> when the header is not sent).
\<close>

record Request =
  pathname :: string
  httpMethod :: string
  mcpSessionId :: "string option"

text \<open>
  A \<^verbatim>\<open>ServerResponse\<close>: the property \<^verbatim>\<open>statusCode\<close>, the status of the head once
  it is written (\<open>None\<close> while \<^verbatim>\<open>res.headersSent\<close> is false; an assignment to
  \<^verbatim>\<open>statusCode\<close> after that no longer reaches the client), the headers, the body
  written and whether the response was ended. A response starts with status code 200
  and nothing written.
\<close>

record Response =
  statusCode :: nat
  sentStatus :: "nat option"
  headers :: "(string \<times> string) list"
  body :: string
  ended :: bool

definition freshResponse :: Response where
  "freshResponse =
     \<lparr>statusCode = 200, sentStatus = None, headers = [], body = [], ended = False\<rparr>"

text \<open>\<^verbatim>\<open>res.writeHead(code, headers)\<close> throws when the head is already written.\<close>

definition writeHead ::
  "nat \<Rightarrow> (string \<times> string) list \<Rightarrow> Response \<Rightarrow> js_thrown + Response" where
  "writeHead code hs res =
     (case sentStatus res of
        Some c \<Rightarrow> Inl (JsError ''Error'' ''Cannot write headers after they are sent to the client'')
      | None \<Rightarrow>
          Inr (res\<lparr>statusCode := code, sentStatus := Some code, headers := headers res @ hs\<rparr>))"

text \<open>
  \<^verbatim>\<open>res.write(data)\<close> and \<^verbatim>\<open>res.end(data)\<close>: the head goes out first, with the status
  code of that moment, unless it is already written. On an ended response nothing more
  is written (the stream reports the error; the call does not throw).
\<close>

definition res_write :: "string \<Rightarrow> Response \<Rightarrow> Response" where
  "res_write data res =
     (if ended res then res
      else res\<lparr> sentStatus := Some (nullish_or (sentStatus res) (statusCode res)),
                body := body res @ data \<rparr>)"

definition res_end :: "string \<Rightarrow> Response \<Rightarrow> Response" where
  "res_end data res =
     (if ended res then res
      else res\<lparr> sentStatus := Some (nullish_or (sentStatus res) (statusCode res)),
                body := body res @ data,
                ended := True \<rparr>)"

text \<open>
  \<^verbatim>\<open>interface Session {transport; server}\<close>: both are objects of the protocol SDK,
  known here by their identity.
\<close>

record Session =
  transport :: nat
  server :: nat

text \<open>
  The module state: the map \<^verbatim>\<open>sessions\<close>, the lines passed to \<^verbatim>\<open>logger\<close>, and the
  number of server instances and transports made so far (the identity of the next).
\<close>

record HttpState =
  sessions :: "string \<rightharpoonup> Session"
  logged :: "string list"
  nextServer :: nat
  nextTransport :: nat

text \<open>
  The two callbacks \<^verbatim>\<open>createNewSession\<close> wires into a transport. The transport
  decides when they fire: \<open>SessionInitialized sid\<close> is a call of
  \<^verbatim>\<open>onsessioninitialized(sid)\<close>, \<open>Closed v\<close> a call of \<^verbatim>\<open>onclose()\<close> at a moment
  when \<^verbatim>\<open>transport.sessionId\<close> is \<open>v\<close>.
\<close>

datatype TransportEvent = SessionInitialized string | Closed "string option"

definition fireCallback :: "Session \<Rightarrow> HttpState \<Rightarrow> TransportEvent \<Rightarrow> HttpState" where
  "fireCallback session st ev =
     (case ev of
        SessionInitialized sessionId \<Rightarrow>
          st\<lparr> sessions := (sessions st)(sessionId \<mapsto> session),
              logged := logged st @ [''New session created: '' @ sessionId] \<rparr>
      | Closed v \<Rightarrow>
          if truthy v
          then st\<lparr> sessions := (sessions st)(nullish_or v [] := None),
                   logged := logged st @ [''Session closed: '' @ nullish_or v []] \<rparr>
          else st)"

text \<open>What a transport does to the response it was handed.\<close>

datatype ResponseWrite =
    WriteHead nat "(string \<times> string) list"
  | Write string
  | End string

definition transportWrite :: "Response \<Rightarrow> ResponseWrite \<Rightarrow> Response" where
  "transportWrite res w =
     (case w of
        WriteHead code hs \<Rightarrow> (case writeHead code hs res of Inl e \<Rightarrow> res | Inr res' \<Rightarrow> res')
      | Write data \<Rightarrow> res_write data res
      | End data \<Rightarrow> res_end data res)"

text \<open>
  What the collaborators do while one request is handled: the clock, the SDK's
  \<^verbatim>\<open>serverInstance.connect(transport)\<close> (\<open>Some e\<close> is a throw), and the transport's
  \<^verbatim>\<open>handleRequest(req, res)\<close>, which fires callbacks, writes to \<^verbatim>\<open>res\<close>, and then
  returns or throws (\<open>Some e\<close>).
\<close>

record HttpEnv =
  now :: string
  connectResult :: "js_thrown option"
  transportEvents :: "TransportEvent list"
  transportWrites :: "ResponseWrite list"
  transportThrows :: "js_thrown option"

text \<open>
  \<^verbatim>\<open>createNewSession(req, res, serverFactory)\<close>. The \<^verbatim>\<open>catch\<close> sets the status code
  and ends the response on the very \<^verbatim>\<open>res\<close> the transport was handed, in the state the
  transport left it in.
\<close>

definition createNewSession ::
  "Request \<Rightarrow> Response \<Rightarrow> HttpEnv \<Rightarrow> HttpState \<Rightarrow> Response \<times> HttpState" where
  "createNewSession req res env st =
     (let session = \<lparr>transport = nextTransport st, server = nextServer st\<rparr>;
          st1 = st\<lparr>nextServer := Suc (nextServer st), nextTransport := Suc (nextTransport st)\<rparr>;
          catch = (\<lambda>error res' st'.
            (res_end ''Internal server error'' (res'\<lparr>statusCode := 500\<rparr>),
             st'\<lparr>logged := logged st' @ [''HTTP connection error: '' @ js_String error]\<rparr>))
      in case connectResult env of
           Some error \<Rightarrow> catch error res st1
         | None \<Rightarrow>
             (let st2 = foldl (fireCallback session) st1 (transportEvents env);
                  res2 = foldl transportWrite res (transportWrites env)
              in case transportThrows env of
                   Some error \<Rightarrow> catch error res2 st2
                 | None \<Rightarrow> (res2, st2)))"

text \<open>
  \<^verbatim>\<open>handleMcpRequest(req, res, serverFactory)\<close>. \<^verbatim>\<open>if (sessionId)\<close> is a truthiness
  test. A throw of the transport of a known session is not caught here: the result is
  \<open>Inl\<close>.
\<close>

definition handleMcpRequest ::
  "Request \<Rightarrow> Response \<Rightarrow> HttpEnv \<Rightarrow> HttpState \<Rightarrow> (js_thrown + Response) \<times> HttpState" where
  "handleMcpRequest req res env st =
     (if truthy (mcpSessionId req)
      then (case sessions st (nullish_or (mcpSessionId req) []) of
              None \<Rightarrow> (Inr (res_end ''Session not found'' (res\<lparr>statusCode := 404\<rparr>)), st)
            | Some session \<Rightarrow>
                (case transportThrows env of
                   Some error \<Rightarrow> Inl error
                 | None \<Rightarrow> Inr (foldl transportWrite res (transportWrites env)),
                 foldl (fireCallback session) st (transportEvents env)))
      else if httpMethod req = ''POST''
      then (case createNewSession req res env st of (res', st') \<Rightarrow> (Inr res', st'))
      else (Inr (res_end ''Invalid request'' (res\<lparr>statusCode := 400\<rparr>)), st))"

text \<open>
  \<^verbatim>\<open>JSON.stringify\<close> on an object whose values are strings free of characters that
  need escaping (the two written here are).
\<close>

definition json_quote :: "string \<Rightarrow> string" where
  "json_quote s = [CHR 0x22] @ s @ [CHR 0x22]"

fun json_members :: "(string \<times> string) list \<Rightarrow> string" where
  "json_members [] = []"
| "json_members [(k, v)] = json_quote k @ '':'' @ json_quote v"
| "json_members ((k, v) # kvs) = json_quote k @ '':'' @ json_quote v @ '','' @ json_members kvs"

definition JSON_stringify :: "(string \<times> string) list \<Rightarrow> string" where
  "JSON_stringify obj = ''{'' @ json_members obj @ ''}''"

text \<open>\<^verbatim>\<open>handleHealthCheck(res)\<close>; \<open>timestamp\<close> is \<^verbatim>\<open>new Date().toISOString()\<close>.\<close>

definition handleHealthCheck :: "string \<Rightarrow> Response \<Rightarrow> js_thrown + Response" where
  "handleHealthCheck timestamp res =
     (case writeHead 200 [(''Content-Type'', ''application/json'')] res of
        Inl e \<Rightarrow> Inl e
      | Inr res' \<Rightarrow>
          Inr (res_end (JSON_stringify [(''status'', ''healthy''), (''timestamp'', timestamp)])
                 res'))"

definition handleNotFound :: "Response \<Rightarrow> js_thrown + Response" where
  "handleNotFound res =
     (case writeHead 404 [(''Content-Type'', ''text/plain'')] res of
        Inl e \<Rightarrow> Inl e
      | Inr res' \<Rightarrow> Inr (res_end ''Not Found'' res'))"

text \<open>
  The listener of \<^verbatim>\<open>httpServer.on('request', ...)\<close> in \<^verbatim>\<open>startHttpTransport\<close>; every
  request comes with a response of its own, on which nothing is written yet.
\<close>

definition onRequest ::
  "Request \<Rightarrow> HttpEnv \<Rightarrow> HttpState \<Rightarrow> (js_thrown + Response) \<times> HttpState" where
  "onRequest req env st =
     (if pathname req = ''/mcp'' then handleMcpRequest req freshResponse env st
      else if pathname req = ''/health'' then (handleHealthCheck (now env) freshResponse, st)
      else (handleNotFound freshResponse, st))"

section \<open>The invocation pipeline (the callback of registerTool, server.ts)\<close>

text \<open>
  The inner \<^verbatim>\<open>catch\<close>: \<^verbatim>\<open>error instanceof Error ? error.message : String(error)\<close>.
\<close>

definition errorText :: "js_thrown \<Rightarrow> string" where
  "errorText error = (case error of JsError n m \<Rightarrow> m | _ \<Rightarrow> js_String error)"

text \<open>
  The outer \<^verbatim>\<open>catch\<close>: \<^verbatim>\<open>const error = err as Error; logger(`${tool.name} error: ${error.message}`); throw err\<close>.
  The cast is erased at run time. The result is the lines logged and the value thrown
  on. Reading \<^verbatim>\<open>.message\<close> of \<^verbatim>\<open>null\<close> or \<^verbatim>\<open>undefined\<close> throws a \<^verbatim>\<open>TypeError\<close> before
  \<^verbatim>\<open>logger\<close> is called (its message is the engine's); on any other value that is no \<^verbatim>\<open>Error\<close> the property is
  \<^verbatim>\<open>undefined\<close>.
\<close>

definition catchBlock :: "ToolDefinition \<Rightarrow> js_thrown \<Rightarrow> string list \<times> js_thrown" where
  "catchBlock tool err =
     (case err of
        JsError n m \<Rightarrow> ([name tool @ '' error: '' @ m], err)
      | JsOther s \<Rightarrow> ([name tool @ '' error: undefined''], err)
      | JsNull \<Rightarrow>
          ([], JsError ''TypeError'' ''Cannot read properties of null (reading 'message')'')
      | JsUndefined \<Rightarrow>
          ([], JsError ''TypeError'' ''Cannot read properties of undefined (reading 'message')''))"

text \<open>
  The \<^verbatim>\<open>try\<close> block with its inner \<^verbatim>\<open>try\<close>/\<^verbatim>\<open>catch\<close>, from the first \<^verbatim>\<open>logger\<close> call to
  the \<^verbatim>\<open>return\<close>s. \<open>params\<close> is the text \<^verbatim>\<open>JSON.stringify(params, null, '  ')\<close>. The result
  is the value returned (\<open>Inr\<close>) or thrown (\<open>Inl\<close>), the closure state and the lines logged.
\<close>

definition tryBlock ::
  "Config \<Rightarrow> ToolDefinition \<Rightarrow> string \<Rightarrow> Env \<Rightarrow> ContextState
     \<Rightarrow> (js_thrown + CallToolResult) \<times> ContextState \<times> string list" where
  "tryBlock config tool params env st =
     (let request = name tool @ '' request: '' @ params;
          resolved = name tool @ '' context: resolved''
      in case getContext config env st of
           (Inl err, st') \<Rightarrow> (Inl err, st', [request])
         | (Inr ctx, st') \<Rightarrow>
             (case detectOpenDevToolsWindows env of
                Some err \<Rightarrow> (Inl err, st', [request, resolved])
              | None \<Rightarrow>
                  (case handler env of
                     Some err \<Rightarrow> (Inl err, st', [request, resolved])
                   | None \<Rightarrow>
                       (case handle env of
                          Inr content' \<Rightarrow>
                            (Inr \<lparr>content = content', isError = None\<rparr>, st', [request, resolved])
                        | Inl error \<Rightarrow>
                            (Inr \<lparr>content = [TextContent (errorText error)], isError = Some True\<rparr>,
                             st', [request, resolved])))))"

text \<open>
  The callback between \<^verbatim>\<open>acquire\<close> and \<^verbatim>\<open>guard.dispose()\<close>: the \<^verbatim>\<open>try\<close> block, and
  the outer \<^verbatim>\<open>catch\<close> on a throw.
\<close>

definition toolCallback ::
  "Config \<Rightarrow> ToolDefinition \<Rightarrow> string \<Rightarrow> Env \<Rightarrow> ContextState
     \<Rightarrow> (js_thrown + CallToolResult) \<times> ContextState \<times> string list" where
  "toolCallback config tool params env st =
     (case tryBlock config tool params env st of
        (Inl err, st', lines) \<Rightarrow>
          (Inl (snd (catchBlock tool err)), st', lines @ fst (catchBlock tool err))
      | (Inr result, st', lines) \<Rightarrow> (Inr result, st', lines))"

subsection \<open>Invocations that share one server\<close>

text \<open>
  Modelled from the spec: the class \<^verbatim>\<open>Mutex\<close> of \<^verbatim>\<open>Mutex.ts\<close>, which is not among the
  sources. The spec: "\<^verbatim>\<open>acquire()\<close> suspends the caller until any prior holder has
  released", "FIFO on contention", and a guard handle whose \<^verbatim>\<open>dispose\<close> releases. The
  mutex is a flag and the queue of the suspended callers, each known by the number of
  its invocation. \<open>acquire\<close> tells whether the caller got the guard at once;
  \<open>release\<close> hands the guard to the first caller in the queue, if there is one, and
  tells which.
\<close>

record Mutex =
  locked :: bool
  acquirers :: "nat list"

definition acquire :: "nat \<Rightarrow> Mutex \<Rightarrow> bool \<times> Mutex" where
  "acquire i m =
     (if locked m then (False, m\<lparr>acquirers := acquirers m @ [i]\<rparr>)
      else (True, m\<lparr>locked := True\<rparr>))"

definition release :: "Mutex \<Rightarrow> nat option \<times> Mutex" where
  "release m =
     (case acquirers m of
        [] \<Rightarrow> (None, m\<lparr>locked := False\<rparr>)
      | w # ws \<Rightarrow> (Some w, m\<lparr>acquirers := ws\<rparr>))"

text \<open>
  Where one invocation of the callback stands. Every \<^verbatim>\<open>await\<close> is a point where
  another invocation may run: \<open>Queued\<close> before \<^verbatim>\<open>toolMutex.acquire()\<close>, \<open>Waiting\<close>
  suspended in it, \<open>ContextResolving\<close> with the guard and before \<^verbatim>\<open>getContext()\<close>,
  \<open>Detecting\<close> before \<^verbatim>\<open>detectOpenDevToolsWindows()\<close>, \<open>HandlerRunning\<close> before the
  handler, \<open>ResponseBuilding\<close> before \<^verbatim>\<open>response.handle\<close>; \<open>Done\<close> has returned and
  \<open>Failed\<close> has thrown, both after \<^verbatim>\<open>guard.dispose()\<close>.
\<close>

datatype Stage =
    Queued
  | Waiting
  | ContextResolving
  | Detecting McpContext
  | HandlerRunning McpContext
  | ResponseBuilding McpContext
  | Done CallToolResult
  | Failed js_thrown

definition holding :: "Stage \<Rightarrow> bool" where
  "holding stage =
     (case stage of
        ContextResolving \<Rightarrow> True | Detecting c \<Rightarrow> True | HandlerRunning c \<Rightarrow> True
      | ResponseBuilding c \<Rightarrow> True | _ \<Rightarrow> False)"

definition finished :: "Stage \<Rightarrow> bool" where
  "finished stage = (case stage of Done r \<Rightarrow> True | Failed e \<Rightarrow> True | _ \<Rightarrow> False)"

text \<open>What an invocation does, as the trace of a server records it.\<close>

datatype Event = Acquired | ContextResolution | DevToolsDetection | HandlerRun | Finalization | Released

text \<open>
  One stretch of the callback, from one \<^verbatim>\<open>await\<close> to the next, for an invocation that
  holds the guard: the next stage, the closure state, the lines logged and the event.
  A throw runs the outer \<^verbatim>\<open>catch\<close> and ends the invocation.
\<close>

definition thrown :: "ToolDefinition \<Rightarrow> js_thrown \<Rightarrow> ContextState \<Rightarrow> string list
    \<Rightarrow> Stage \<times> ContextState \<times> string list" where
  "thrown tool err st lines =
     (Failed (snd (catchBlock tool err)), st, lines @ fst (catchBlock tool err))"

definition bodyStep ::
  "Config \<Rightarrow> ToolDefinition \<Rightarrow> string \<Rightarrow> Env \<Rightarrow> Stage \<Rightarrow> ContextState
     \<Rightarrow> (Stage \<times> ContextState \<times> string list) \<times> Event" where
  "bodyStep config tool params env stage st =
     (case stage of
        ContextResolving \<Rightarrow>
          (case getContext config env st of
             (Inl err, st') \<Rightarrow> thrown tool err st' [name tool @ '' request: '' @ params]
           | (Inr ctx, st') \<Rightarrow>
               (Detecting ctx, st',
                [name tool @ '' request: '' @ params, name tool @ '' context: resolved'']),
           ContextResolution)
      | Detecting ctx \<Rightarrow>
          (case detectOpenDevToolsWindows env of
             Some err \<Rightarrow> thrown tool err st []
           | None \<Rightarrow> (HandlerRunning ctx, st, []),
           DevToolsDetection)
      | HandlerRunning ctx \<Rightarrow>
          (case handler env of
             Some err \<Rightarrow> thrown tool err st []
           | None \<Rightarrow> (ResponseBuilding ctx, st, []),
           HandlerRun)
      | ResponseBuilding ctx \<Rightarrow>
          (case handle env of
             Inr content' \<Rightarrow> (Done \<lparr>content = content', isError = None\<rparr>, st, [])
           | Inl error \<Rightarrow>
               (Done \<lparr>content = [TextContent (errorText error)], isError = Some True\<rparr>, st, []),
           Finalization)
      | _ \<Rightarrow> ((stage, st, []), Finalization))"

text \<open>One call of a tool: the tool, the rendered parameters and what the collaborators do.\<close>

record Invocation =
  inv_tool :: ToolDefinition
  inv_params :: string
  inv_env :: Env

text \<open>
  One server made by \<^verbatim>\<open>createServer\<close>: its \<^verbatim>\<open>toolMutex\<close>, the closure state of
  \<^verbatim>\<open>getContext\<close>, the stage of every invocation (by number), the lines logged and the
  trace of events.
\<close>

record ServerInstance =
  toolMutex :: Mutex
  closure :: ContextState
  stages :: "nat \<Rightarrow> Stage"
  logs :: "string list"
  trace :: "(nat \<times> Event) list"

definition newServer :: ServerInstance where
  "newServer =
     \<lparr> toolMutex = \<lparr>locked = False, acquirers = []\<rparr>,
       closure = \<lparr>context' = None, nextObject = 0\<rparr>,
       stages = (\<lambda>i. Queued),
       logs = [],
       trace = [] \<rparr>"

text \<open>
  \<^verbatim>\<open>guard.dispose()\<close> in the \<^verbatim>\<open>finally\<close> of invocation \<open>i\<close>: the mutex is released, and
  a caller the guard is handed to resumes behind its \<^verbatim>\<open>await toolMutex.acquire()\<close>.
\<close>

definition dispose :: "nat \<Rightarrow> ServerInstance \<Rightarrow> ServerInstance" where
  "dispose i s =
     (case release (toolMutex s) of
        (None, m) \<Rightarrow> s\<lparr>toolMutex := m, trace := trace s @ [(i, Released)]\<rparr>
      | (Some w, m) \<Rightarrow>
          s\<lparr> toolMutex := m,
             stages := (stages s)(w := ContextResolving),
             trace := trace s @ [(i, Released), (w, Acquired)] \<rparr>)"

text \<open>
  Invocation \<open>i\<close> runs up to its next \<^verbatim>\<open>await\<close>. A suspended or finished invocation
  does nothing. The stretch that ends the invocation runs the \<^verbatim>\<open>finally\<close>.
\<close>

definition step :: "Config \<Rightarrow> (nat \<Rightarrow> Invocation) \<Rightarrow> ServerInstance \<Rightarrow> nat \<Rightarrow> ServerInstance" where
  "step config calls s i =
     (if stages s i = Queued
      then (case acquire i (toolMutex s) of
              (True, m) \<Rightarrow>
                s\<lparr> toolMutex := m,
                   stages := (stages s)(i := ContextResolving),
                   trace := trace s @ [(i, Acquired)] \<rparr>
            | (False, m) \<Rightarrow> s\<lparr>toolMutex := m, stages := (stages s)(i := Waiting)\<rparr>)
      else if holding (stages s i)
      then (case bodyStep config (inv_tool (calls i)) (inv_params (calls i)) (inv_env (calls i))
                   (stages s i) (closure s) of
              ((stage', st', lines), event) \<Rightarrow>
                (let s' = s\<lparr> closure := st',
                             stages := (stages s)(i := stage'),
                             logs := logs s @ lines,
                             trace := trace s @ [(i, event)] \<rparr>
                 in if finished stage' then dispose i s' else s'))
      else s)"

text \<open>A schedule names the invocation that runs next, again and again.\<close>

definition run :: "Config \<Rightarrow> (nat \<Rightarrow> Invocation) \<Rightarrow> nat list \<Rightarrow> ServerInstance \<Rightarrow> ServerInstance" where
  "run config calls schedule s = foldl (step config calls) s schedule"




section \<open>Notions used in the statements\<close>

text \<open>The condition under which \<^verbatim>\<open>registerTool\<close> returns early.\<close>

definition categoryDisabled :: "Config \<Rightarrow> ToolDefinition \<Rightarrow> bool" where
  "categoryDisabled config tool =
     (category (annotations tool) = EMULATION \<and> \<not> categoryEmulation config
      \<or> category (annotations tool) = PERFORMANCE \<and> \<not> categoryPerformance config
      \<or> category (annotations tool) = NETWORK \<and> \<not> categoryNetwork config)"

text \<open>
  A concrete collation for the examples: strings compared code unit by code unit, a
  proper prefix first.
\<close>

fun lexCompare :: "('a \<Rightarrow> nat) \<Rightarrow> 'a list \<Rightarrow> 'a list \<Rightarrow> int" where
  "lexCompare k [] [] = 0"
| "lexCompare k [] (y # ys) = - 1"
| "lexCompare k (x # xs) [] = 1"
| "lexCompare k (x # xs) (y # ys) =
     (if k x < k y then - 1
      else if k y < k x then 1
      else lexCompare k xs ys)"

definition codeUnitCompare :: "string \<Rightarrow> string \<Rightarrow> int" where
  "codeUnitCompare a b = lexCompare of_char a b"

text \<open>A command line that switches the emulation tools off, and four tool definitions.\<close>

definition exampleConfig :: Config where
  "exampleConfig = loadConfig None
     \<lparr> arg_browserUrl = None, arg_wsEndpoint = None, arg_wsHeaders = None,
       arg_headless = Some True, arg_executablePath = None, arg_channel = None,
       arg_isolated = None, arg_viewport = None, arg_chromeArg = None,
       arg_proxyServer = None, arg_acceptInsecureCerts = None, arg_port = None,
       arg_logFile = None, arg_experimentalDevtools = None,
       arg_experimentalIncludeAllPages = None, arg_categoryEmulation = Some False,
       arg_categoryPerformance = None, arg_categoryNetwork = Some True \<rparr> ''0.10.1''"

definition exampleTools :: "ToolDefinition list" where
  "exampleTools =
     [ \<lparr>name = ''take_screenshot'', description = ''Take a screenshot'',
         annotations = \<lparr>category = OTHER ''DEBUGGING''\<rparr>\<rparr>,
       \<lparr>name = ''emulate_cpu'', description = ''Emulates CPU throttling'',
         annotations = \<lparr>category = EMULATION\<rparr>\<rparr>,
       \<lparr>name = ''click'', description = ''Clicks on the element'',
         annotations = \<lparr>category = OTHER ''INPUT''\<rparr>\<rparr>,
       \<lparr>name = ''list_network_requests'', description = ''List all requests'',
         annotations = \<lparr>category = NETWORK\<rparr>\<rparr> ]"




text \<open>Requests, environments and states for the examples of the HTTP transport.\<close>

definition emptyHttpState :: HttpState where
  "emptyHttpState = \<lparr>sessions = Map.empty, logged = [], nextServer = 0, nextTransport = 0\<rparr>"

definition mcpPost :: Request where
  "mcpPost = \<lparr>pathname = ''/mcp'', httpMethod = ''POST'', mcpSessionId = None\<rparr>"

definition mcpGet :: Request where
  "mcpGet = \<lparr>pathname = ''/mcp'', httpMethod = ''GET'', mcpSessionId = None\<rparr>"

definition mcpUnknown :: Request where
  "mcpUnknown = \<lparr>pathname = ''/mcp'', httpMethod = ''POST'', mcpSessionId = Some ''nope''\<rparr>"

definition healthGet :: Request where
  "healthGet = \<lparr>pathname = ''/health'', httpMethod = ''GET'', mcpSessionId = None\<rparr>"

definition handshakeEnv :: HttpEnv where
  "handshakeEnv =
     \<lparr> now = ''2025-01-01T00:00:00.000Z'',
       connectResult = None,
       transportEvents = [SessionInitialized ''s1''],
       transportWrites = [WriteHead 200 [(''Content-Type'', ''application/json'')], End ''{}''],
       transportThrows = None \<rparr>"

definition connectFailsEnv :: HttpEnv where
  "connectFailsEnv = handshakeEnv\<lparr>connectResult := Some (JsError ''Error'' ''refused'')\<rparr>"

text \<open>A transport that registers the session, writes the head of a stream, and then throws.\<close>

definition lateFailureEnv :: HttpEnv where
  "lateFailureEnv =
     handshakeEnv\<lparr> transportWrites := [WriteHead 200 [(''Content-Type'', ''text/event-stream'')]],
                   transportThrows := Some (JsError ''Error'' ''boom'') \<rparr>"


text \<open>
  The state of a server that \<^verbatim>\<open>createServer\<close> has just made, and environments for
  the examples: the browser module hands out the handle \<open>b\<close>, or fails to launch.
\<close>

definition initialContextState :: ContextState where
  "initialContextState = \<lparr>context' = None, nextObject = 0\<rparr>"

definition browserEnv :: "nat \<Rightarrow> Env" where
  "browserEnv b =
     \<lparr> ensureBrowser = (\<lambda>call. Inr b),
       contextFrom = (\<lambda>b'. None),
       detectOpenDevToolsWindows = None,
       handler = None,
       handle = Inr [TextContent ''done''] \<rparr>"

definition launchFailsEnv :: Env where
  "launchFailsEnv = (browserEnv 0)\<lparr>ensureBrowser := (\<lambda>call. Inl (JsError ''Error'' ''Could not launch''))\<rparr>"











section \<open>The catalogue: filtering and order\<close>

lemma registerTool_cases:
  "registerTool config tool srv =
     (if categoryDisabled config tool then srv else server_registerTool tool srv)"
  by (auto simp: registerTool_def categoryDisabled_def)

lemma registeredTools_foldl:
  "registeredTools (foldl (\<lambda>srv tool. registerTool config tool srv) s ts) =
     registeredTools s @ filter (\<lambda>t. \<not> categoryDisabled config t) ts"
  by (induction ts arbitrary: s) (auto simp: registerTool_cases server_registerTool_def)

lemma registeredTools_createServer:
  "registeredTools (createServer config lc tools) =
     filter (\<lambda>t. \<not> categoryDisabled config t) (array_sort (compareTools lc) tools)"
  by (simp add: createServer_def registeredTools_foldl)

lemma set_insert_by: "set (insert_by cmp x xs) = insert x (set xs)"
  by (induction xs) auto

lemma set_array_sort: "set (array_sort cmp xs) = set xs"
  by (induction xs) (auto simp: array_sort_def set_insert_by)

lemma sorted_insert_by:
  assumes total: "\<And>a b. cmp a b \<le> 0 \<or> cmp b a \<le> 0"
    and trans: "\<And>a b c. cmp a b \<le> 0 \<Longrightarrow> cmp b c \<le> 0 \<Longrightarrow> cmp a c \<le> 0"
    and "sorted_wrt (\<lambda>a b. cmp a b \<le> 0) xs"
  shows "sorted_wrt (\<lambda>a b. cmp a b \<le> (0::int)) (insert_by cmp x xs)"
  using assms(3)
proof (induction xs)
  case Nil
  then show ?case by simp
next
  case (Cons y ys)
  show ?case
  proof (cases "cmp x y \<le> 0")
    case True
    then have "\<forall>z\<in>set ys. cmp x z \<le> 0" using Cons.prems trans by auto
    with True Cons.prems show ?thesis by simp
  next
    case False
    then have "cmp y x \<le> 0" using total by blast
    with False Cons show ?thesis by (auto simp: set_insert_by)
  qed
qed

lemma sorted_array_sort:
  assumes total: "\<And>a b. cmp a b \<le> 0 \<or> cmp b a \<le> 0"
    and trans: "\<And>a b c. cmp a b \<le> 0 \<Longrightarrow> cmp b c \<le> 0 \<Longrightarrow> cmp a c \<le> 0"
  shows "sorted_wrt (\<lambda>a b. cmp a b \<le> (0::int)) (array_sort cmp xs)"
proof (induction xs)
  case Nil
  show ?case by (simp add: array_sort_def)
next
  case (Cons x xs)
  have "array_sort cmp (x # xs) = insert_by cmp x (array_sort cmp xs)"
    by (simp add: array_sort_def)
  with Cons sorted_insert_by[OF total trans] show ?case by simp
qed

lemma insert_by_sorted_front:
  "\<forall>y\<in>set xs. cmp x y \<le> 0 \<Longrightarrow> insert_by cmp x xs = x # xs"
  by (cases xs) auto

lemma array_sort_sorted_id:
  "sorted_wrt (\<lambda>a b. cmp a b \<le> (0::int)) xs \<Longrightarrow> array_sort cmp xs = xs"
proof (induction xs)
  case Nil
  show ?case by (simp add: array_sort_def)
next
  case (Cons x xs)
  have "array_sort cmp (x # xs) = insert_by cmp x (array_sort cmp xs)"
    by (simp add: array_sort_def)
  with Cons show ?case by (simp add: insert_by_sorted_front)
qed

lemma sorted_wrt_filter': "sorted_wrt P xs \<Longrightarrow> sorted_wrt P (filter Q xs)"
  by (induction xs) auto

lemma createServer_idem:
  assumes total: "\<And>a b. lc a b \<le> 0 \<or> lc b a \<le> 0"
    and trans: "\<And>a b c. lc a b \<le> 0 \<Longrightarrow> lc b c \<le> 0 \<Longrightarrow> lc a c \<le> (0::int)"
  shows "createServer config lc (registeredTools (createServer config lc tools)) = createServer config lc tools"
proof -
  let ?cmp = "compareTools lc"
  have s: "sorted_wrt (\<lambda>a b. ?cmp a b \<le> 0) (array_sort ?cmp tools)"
    by (rule sorted_array_sort) (use total trans in \<open>auto simp: compareTools_def\<close>)
  let ?r = "registeredTools (createServer config lc tools)"
  have "sorted_wrt (\<lambda>a b. ?cmp a b \<le> 0) ?r"
    unfolding registeredTools_createServer by (rule sorted_wrt_filter'[OF s])
  then have "array_sort ?cmp ?r = ?r" by (rule array_sort_sorted_id)
  then have "registeredTools (createServer config lc ?r) = ?r"
    by (simp add: registeredTools_createServer[of config lc ?r]) (simp add: registeredTools_createServer)
  then show ?thesis by simp
qed

lemma lexCompare_total: "lexCompare k a b \<le> 0 \<or> lexCompare k b a \<le> 0"
  by (induction k a b rule: lexCompare.induct) auto


lemma lexCompare_trans:
  "lexCompare k a b \<le> 0 \<Longrightarrow> lexCompare k b c \<le> 0 \<Longrightarrow> lexCompare k a c \<le> 0"
proof (induction k a b arbitrary: c rule: lexCompare.induct)
  case (1 k)
  then show ?case by simp
next
  case (2 k y ys)
  then show ?case by (cases c) simp_all
next
  case (3 k x xs)
  then show ?case by simp
next
  case (4 k x xs y ys)
  show ?case
  proof (cases c)
    case Nil
    with "4.prems" show ?thesis by simp
  next
    case (Cons z zs)
    from "4.prems"(1) have xy: "k x \<le> k y" by (simp split: if_splits)
    from "4.prems"(2) Cons have yz: "k y \<le> k z" by (simp split: if_splits)
    show ?thesis
    proof (cases "k x < k z")
      case True
      with Cons show ?thesis by simp
    next
      case False
      with xy yz have e: "k x = k y" "k y = k z" by simp_all
      with "4.prems" Cons have "lexCompare k xs ys \<le> 0" "lexCompare k ys zs \<le> 0"
        by simp_all
      with "4.IH" e have "lexCompare k xs zs \<le> 0" by simp
      with e Cons show ?thesis by simp
    qed
  qed
qed

lemma toggles: "categoryEmulation exampleConfig = False" "categoryPerformance exampleConfig = True"
   "categoryNetwork exampleConfig = True"
  by (simp_all add: exampleConfig_def loadConfig_def not_false_def)




lemma sorted_tools: "array_sort (compareTools codeUnitCompare) exampleTools =
   [exampleTools ! 2, exampleTools ! 1, exampleTools ! 3, exampleTools ! 0]"
  by (simp add: array_sort_def compareTools_def codeUnitCompare_def exampleTools_def)

lemma registered_example:
  "registeredTools (createServer exampleConfig codeUnitCompare exampleTools) =
     [exampleTools ! 2, exampleTools ! 3, exampleTools ! 0]"
  unfolding registeredTools_createServer sorted_tools
  by (simp add: categoryDisabled_def toggles exampleTools_def)


lemma codeUnitCompare_total: "codeUnitCompare a b \<le> 0 \<or> codeUnitCompare b a \<le> 0"
  unfolding codeUnitCompare_def by (rule lexCompare_total)

lemma codeUnitCompare_trans:
  "codeUnitCompare a b \<le> 0 \<Longrightarrow> codeUnitCompare b c \<le> 0 \<Longrightarrow> codeUnitCompare a c \<le> 0"
  unfolding codeUnitCompare_def by (rule lexCompare_trans)

lemma registered_example_names:
  "map name (registeredTools (createServer exampleConfig codeUnitCompare exampleTools))
     = [''click'', ''list_network_requests'', ''take_screenshot'']"
  unfolding registered_example by (simp add: exampleTools_def)


text \<open>
  Claim C6. A tool whose category is EMULATION, PERFORMANCE or NETWORK and whose toggle
  is \<open>False\<close> is skipped by \<^verbatim>\<open>registerTool\<close> (the server is returned as it was) and
  is no element of the catalogue \<^verbatim>\<open>createServer\<close> builds, whatever the other tools
  are; and \<^verbatim>\<open>loadConfig\<close> sets each of the three toggles to true unless the
  argument is exactly \<^verbatim>\<open>false\<close>.
\<close>

theorem C6_disabled_category_not_registered:
  assumes "category (annotations tool) = EMULATION \<and> categoryEmulation config = False
         \<or> category (annotations tool) = PERFORMANCE \<and> categoryPerformance config = False
         \<or> category (annotations tool) = NETWORK \<and> categoryNetwork config = False"
  shows "registerTool config tool srv = srv
       \<and> tool \<notin> set (registeredTools (createServer config localeCompare tools))
       \<and> categoryEmulation (loadConfig NODE_ENV args ver)
            = (arg_categoryEmulation args \<noteq> Some False)
       \<and> categoryPerformance (loadConfig NODE_ENV args ver)
            = (arg_categoryPerformance args \<noteq> Some False)
       \<and> categoryNetwork (loadConfig NODE_ENV args ver)
            = (arg_categoryNetwork args \<noteq> Some False)"
proof -
  from assms have d: "categoryDisabled config tool" by (simp add: categoryDisabled_def)
  then have "registerTool config tool srv = srv" by (simp add: registerTool_cases)
  moreover from d have "tool \<notin> set (registeredTools (createServer config localeCompare tools))"
    by (simp add: registeredTools_createServer)
  ultimately show ?thesis by (simp add: loadConfig_def not_false_def)
qed


text \<open>The theorem of C6 at the example: emulation is switched off, \<^verbatim>\<open>emulate_cpu\<close> is skipped.\<close>

theorem C6_witness:
  "categoryEmulation exampleConfig = False
   \<and> exampleTools ! 1 \<in> set exampleTools
   \<and> category (annotations (exampleTools ! 1)) = EMULATION
   \<and> exampleTools ! 1 \<notin> set (registeredTools (createServer exampleConfig codeUnitCompare exampleTools))
   \<and> registerTool exampleConfig (exampleTools ! 1) \<lparr>registeredTools = []\<rparr> = \<lparr>registeredTools = []\<rparr>"
proof -
  have c: "category (annotations (exampleTools ! 1)) = EMULATION"
    by (simp add: exampleTools_def)
  have m: "exampleTools ! 1 \<in> set exampleTools" by (simp add: exampleTools_def)
  have h: "category (annotations (exampleTools ! 1)) = EMULATION \<and> categoryEmulation exampleConfig = False
         \<or> category (annotations (exampleTools ! 1)) = PERFORMANCE \<and> categoryPerformance exampleConfig = False
         \<or> category (annotations (exampleTools ! 1)) = NETWORK \<and> categoryNetwork exampleConfig = False"
    using c toggles(1) by (intro disjI1 conjI)
  note th = C6_disabled_category_not_registered[OF h,
      of "\<lparr>registeredTools = []\<rparr>" codeUnitCompare exampleTools]
  from th have a: "registerTool exampleConfig (exampleTools ! 1) \<lparr>registeredTools = []\<rparr>
      = \<lparr>registeredTools = []\<rparr>" by (rule conjunct1)
  from th have b: "exampleTools ! 1 \<notin> set (registeredTools (createServer exampleConfig codeUnitCompare exampleTools))"
    by (rule conjunct2[THEN conjunct1])
  from toggles(1) m c b a show ?thesis by (intro conjI)
qed


text \<open>
  Claim C7. For every array of tool definitions, in whatever order, and every
  configuration, the names of the registered tools are in ascending order of
  \<^verbatim>\<open>localeCompare\<close>, provided the collation is a consistent comparator (any two names
  are comparable, and the comparison is transitive). Assembly is idempotent: building
  a catalogue from a built catalogue changes nothing. It is deterministic in the
  strongest sense the code allows: two configurations that agree on the three toggles
  give the same catalogue, so identical configurations do.
\<close>

theorem C7_catalogue_sorted:
  assumes total: "\<And>a b. localeCompare a b \<le> 0 \<or> localeCompare b a \<le> 0"
    and trans: "\<And>a b c. localeCompare a b \<le> 0 \<Longrightarrow> localeCompare b c \<le> 0 \<Longrightarrow> localeCompare a c \<le> 0"
  shows "sorted_wrt (\<lambda>a b. localeCompare a b \<le> 0)
           (map name (registeredTools (createServer config localeCompare tools)))
       \<and> createServer config localeCompare (registeredTools (createServer config localeCompare tools))
           = createServer config localeCompare tools
       \<and> (\<forall>config'. categoryEmulation config' = categoryEmulation config
              \<and> categoryPerformance config' = categoryPerformance config
              \<and> categoryNetwork config' = categoryNetwork config
            \<longrightarrow> createServer config' localeCompare tools = createServer config localeCompare tools)"
proof (intro conjI allI impI)
  let ?cmp = "compareTools localeCompare"
  have "sorted_wrt (\<lambda>a b. ?cmp a b \<le> 0) (array_sort ?cmp tools)"
    by (rule sorted_array_sort) (use total trans in \<open>auto simp: compareTools_def\<close>)
  then have "sorted_wrt (\<lambda>a b. ?cmp a b \<le> 0) (registeredTools (createServer config localeCompare tools))"
    unfolding registeredTools_createServer by (rule sorted_wrt_filter')
  then show "sorted_wrt (\<lambda>a b. localeCompare a b \<le> 0)
           (map name (registeredTools (createServer config localeCompare tools)))"
    by (simp add: sorted_wrt_map compareTools_def)
next
  show "createServer config localeCompare (registeredTools (createServer config localeCompare tools))
           = createServer config localeCompare tools"
    using total trans by (rule createServer_idem)
next
  fix config' :: Config
  assume "categoryEmulation config' = categoryEmulation config
              \<and> categoryPerformance config' = categoryPerformance config
              \<and> categoryNetwork config' = categoryNetwork config"
  then have "categoryDisabled config' = categoryDisabled config"
    by (auto simp: categoryDisabled_def fun_eq_iff)
  then have "registeredTools (createServer config' localeCompare tools)
      = registeredTools (createServer config localeCompare tools)"
    by (simp add: registeredTools_createServer)
  then show "createServer config' localeCompare tools = createServer config localeCompare tools"
    by simp
qed


text \<open>The theorem of C7 at the example, under the code-unit collation.\<close>

theorem C7_witness:
  "map name (registeredTools (createServer exampleConfig codeUnitCompare exampleTools))
     = [''click'', ''list_network_requests'', ''take_screenshot'']
   \<and> sorted_wrt (\<lambda>a b. codeUnitCompare a b \<le> 0)
        [''click'', ''list_network_requests'', ''take_screenshot'']
   \<and> createServer (exampleConfig\<lparr>headless := False\<rparr>) codeUnitCompare exampleTools
       = createServer exampleConfig codeUnitCompare exampleTools"
proof -
  note th = C7_catalogue_sorted[of codeUnitCompare exampleConfig exampleTools,
      OF codeUnitCompare_total codeUnitCompare_trans]
  from th have "sorted_wrt (\<lambda>a b. codeUnitCompare a b \<le> 0)
      (map name (registeredTools (createServer exampleConfig codeUnitCompare exampleTools)))"
    by (rule conjunct1)
  then have a: "sorted_wrt (\<lambda>a b. codeUnitCompare a b \<le> 0)
        [''click'', ''list_network_requests'', ''take_screenshot'']"
    unfolding registered_example_names .
  from th have "\<forall>config'. categoryEmulation config' = categoryEmulation exampleConfig
              \<and> categoryPerformance config' = categoryPerformance exampleConfig
              \<and> categoryNetwork config' = categoryNetwork exampleConfig
            \<longrightarrow> createServer config' codeUnitCompare exampleTools
                = createServer exampleConfig codeUnitCompare exampleTools"
    by (rule conjunct2[THEN conjunct2])
  then have "categoryEmulation (exampleConfig\<lparr>headless := False\<rparr>) = categoryEmulation exampleConfig
              \<and> categoryPerformance (exampleConfig\<lparr>headless := False\<rparr>) = categoryPerformance exampleConfig
              \<and> categoryNetwork (exampleConfig\<lparr>headless := False\<rparr>) = categoryNetwork exampleConfig
            \<longrightarrow> createServer (exampleConfig\<lparr>headless := False\<rparr>) codeUnitCompare exampleTools
                = createServer exampleConfig codeUnitCompare exampleTools"
    by (rule spec)
  then have b: "createServer (exampleConfig\<lparr>headless := False\<rparr>) codeUnitCompare exampleTools
                = createServer exampleConfig codeUnitCompare exampleTools"
    by (rule mp) simp
  from registered_example_names a b show ?thesis by (intro conjI)
qed


text \<open>
  Claim C10. A tool whose category is none of EMULATION, PERFORMANCE and NETWORK is
  registered by \<^verbatim>\<open>registerTool\<close> under every configuration, and every such tool
  among the definitions is in the catalogue.
\<close>

theorem C10_other_categories_always_registered:
  assumes "category (annotations tool) \<noteq> EMULATION"
    and "category (annotations tool) \<noteq> PERFORMANCE"
    and "category (annotations tool) \<noteq> NETWORK"
  shows "registerTool config tool srv = server_registerTool tool srv
       \<and> (tool \<in> set tools \<longrightarrow>
            tool \<in> set (registeredTools (createServer config localeCompare tools)))"
proof -
  from assms have d: "\<not> categoryDisabled config tool" by (simp add: categoryDisabled_def)
  then show ?thesis
    by (simp add: registerTool_cases registeredTools_createServer set_array_sort)
qed


text \<open>The theorem of C10 at the example: \<^verbatim>\<open>click\<close> has another category and is registered.\<close>

theorem C10_witness:
  "category (annotations (exampleTools ! 2)) = OTHER ''INPUT''
   \<and> exampleTools ! 2 \<in> set exampleTools
   \<and> exampleTools ! 2 \<in> set (registeredTools (createServer exampleConfig codeUnitCompare exampleTools))"
proof -
  have c: "category (annotations (exampleTools ! 2)) = OTHER ''INPUT''"
    by (simp add: exampleTools_def)
  have m: "exampleTools ! 2 \<in> set exampleTools" by (simp add: exampleTools_def)
  from c have h: "category (annotations (exampleTools ! 2)) \<noteq> EMULATION"
    "category (annotations (exampleTools ! 2)) \<noteq> PERFORMANCE"
    "category (annotations (exampleTools ! 2)) \<noteq> NETWORK" by simp_all
  note th = C10_other_categories_always_registered[OF h,
      of exampleConfig "\<lparr>registeredTools = []\<rparr>" exampleTools codeUnitCompare]
  from th have "exampleTools ! 2 \<in> set exampleTools \<longrightarrow>
      exampleTools ! 2 \<in> set (registeredTools (createServer exampleConfig codeUnitCompare exampleTools))"
    by (rule conjunct2)
  then have b: "exampleTools ! 2 \<in> set (registeredTools (createServer exampleConfig codeUnitCompare exampleTools))"
    using m by (rule mp)
  from c m b show ?thesis by (intro conjI)
qed

section \<open>The context resolver\<close>

lemma buildContext_fresh:
  "contextFrom env b = None \<Longrightarrow>
     buildContext env b st =
       (Inr \<lparr>ctx_id = nextObject st, browser = b\<rparr>,
        st\<lparr>context' := Some \<lparr>ctx_id = nextObject st, browser = b\<rparr>,
           nextObject := Suc (nextObject st)\<rparr>)"
  by (simp add: buildContext_def Let_def)

lemma buildContext_result:
  "buildContext env b st = (r, st') \<Longrightarrow>
     (case r of Inl e \<Rightarrow> st' = st
      | Inr c \<Rightarrow> context' st' = Some c \<and> ctx_id c = nextObject st
          \<and> nextObject st' = Suc (nextObject st))"
  by (auto simp: buildContext_def Let_def split: option.splits)

lemma getContext_result:
  assumes "getContext config env st = (r, st')"
  shows "case r of Inl e \<Rightarrow> st' = st
      | Inr c \<Rightarrow> context' st' = Some c
          \<and> (st' = st \<or> ctx_id c = nextObject st \<and> nextObject st' = Suc (nextObject st))"
proof (cases "ensureBrowser env (browserCall config)")
  case (Inl e)
  with assms show ?thesis by (auto simp: getContext_def)
next
  case (Inr b)
  show ?thesis
  proof (cases "context' st")
    case None
    with Inr assms have "buildContext env b st = (r, st')" by (simp add: getContext_def)
    from buildContext_result[OF this] show ?thesis by (cases r) simp_all
  next
    case (Some c)
    show ?thesis
    proof (cases "browser c = b")
      case True
      with Some Inr assms show ?thesis by (auto simp: getContext_def)
    next
      case False
      with Some Inr assms have "buildContext env b st = (r, st')" by (simp add: getContext_def)
      from buildContext_result[OF this] show ?thesis by (cases r) simp_all
    qed
  qed
qed

lemma getContext_wf:
  assumes "getContext config env st = (r, st')"
    and "\<forall>c. context' st = Some c \<longrightarrow> ctx_id c < nextObject st"
  shows "\<forall>c. context' st' = Some c \<longrightarrow> ctx_id c < nextObject st'"
  using getContext_result[OF assms(1)] assms(2)
  by (cases r) auto

text \<open>
  Claim C8. Two calls of \<^verbatim>\<open>getContext\<close> in sequence on one server. The context a
  successful call returns is the memoized one. If the second call resolves the very
  handle the memoized context holds, it returns that same context and changes nothing;
  if it resolves another handle (and \<^verbatim>\<open>McpContext.from\<close> returns) it builds, memoizes
  and returns a context with a new identity that holds the new handle. A call that
  fails, in connecting or launching or in building the context, leaves the state as it
  was, so the next call resolves again from the same state. The state is assumed
  well-formed: the identity of a memoized context is one already handed out, as it is
  in the initial state and after every call.
\<close>

theorem C8_context_memoised:
  assumes first: "getContext config env1 st0 = (r1, st1)"
    and second: "getContext config env2 st1 = (r2, st2)"
    and wf: "\<forall>c. context' st0 = Some c \<longrightarrow> ctx_id c < nextObject st0"
  shows "(\<forall>c1. r1 = Inr c1 \<longrightarrow> context' st1 = Some c1)
       \<and> (\<forall>c. context' st1 = Some c
              \<and> ensureBrowser env2 (browserCall config) = Inr (browser c)
            \<longrightarrow> r2 = Inr c \<and> st2 = st1)
       \<and> (\<forall>c b. context' st1 = Some c
              \<and> ensureBrowser env2 (browserCall config) = Inr b \<and> b \<noteq> browser c
              \<and> contextFrom env2 b = None
            \<longrightarrow> (\<exists>c2. r2 = Inr c2 \<and> browser c2 = b \<and> ctx_id c2 \<noteq> ctx_id c
                    \<and> context' st2 = Some c2))
       \<and> (\<forall>e. ensureBrowser env1 (browserCall config) = Inl e \<longrightarrow> r1 = Inl e \<and> st1 = st0)
       \<and> (\<forall>e. r1 = Inl e \<longrightarrow> st1 = st0)"
proof (intro conjI allI impI)
  fix c1 assume "r1 = Inr c1"
  with getContext_result[OF first] show "context' st1 = Some c1" by simp
next
  fix c
  assume a: "context' st1 = Some c \<and> ensureBrowser env2 (browserCall config) = Inr (browser c)"
  with second show "r2 = Inr c" by (simp add: getContext_def)
  from a second show "st2 = st1" by (simp add: getContext_def)
next
  fix c b
  assume a: "context' st1 = Some c
              \<and> ensureBrowser env2 (browserCall config) = Inr b \<and> b \<noteq> browser c
              \<and> contextFrom env2 b = None"
  from getContext_wf[OF first wf] a have lt: "ctx_id c < nextObject st1" by simp
  from a second have "buildContext env2 b st1 = (r2, st2)" by (simp add: getContext_def)
  with a have "r2 = Inr \<lparr>ctx_id = nextObject st1, browser = b\<rparr>
      \<and> context' st2 = Some \<lparr>ctx_id = nextObject st1, browser = b\<rparr>"
    by (auto simp: buildContext_fresh)
  with lt show "\<exists>c2. r2 = Inr c2 \<and> browser c2 = b \<and> ctx_id c2 \<noteq> ctx_id c
                    \<and> context' st2 = Some c2" by auto
next
  fix e assume a: "ensureBrowser env1 (browserCall config) = Inl e"
  with first show "r1 = Inl e" by (simp add: getContext_def)
  from a first show "st1 = st0" by (simp add: getContext_def)
next
  fix e assume "r1 = Inl e"
  with getContext_result[OF first] show "st1 = st0" by simp
qed


lemma first_call_example:
  "getContext exampleConfig (browserEnv 7) initialContextState =
     (Inr \<lparr>ctx_id = 0, browser = 7\<rparr>,
      \<lparr>context' = Some \<lparr>ctx_id = 0, browser = 7\<rparr>, nextObject = Suc 0\<rparr>)"
  by (simp add: getContext_def buildContext_def browserEnv_def initialContextState_def Let_def)

lemma same_handle_example:
  "getContext exampleConfig (browserEnv 7)
       \<lparr>context' = Some \<lparr>ctx_id = 0, browser = 7\<rparr>, nextObject = Suc 0\<rparr> =
     (Inr \<lparr>ctx_id = 0, browser = 7\<rparr>,
      \<lparr>context' = Some \<lparr>ctx_id = 0, browser = 7\<rparr>, nextObject = Suc 0\<rparr>)"
  by (simp add: getContext_def buildContext_def browserEnv_def Let_def)

lemma other_handle_example:
  "getContext exampleConfig (browserEnv 8)
       \<lparr>context' = Some \<lparr>ctx_id = 0, browser = 7\<rparr>, nextObject = Suc 0\<rparr> =
     (Inr \<lparr>ctx_id = Suc 0, browser = 8\<rparr>,
      \<lparr>context' = Some \<lparr>ctx_id = Suc 0, browser = 8\<rparr>, nextObject = Suc (Suc 0)\<rparr>)"
  by (simp add: getContext_def buildContext_def browserEnv_def Let_def)

lemma failed_launch_example:
  "getContext exampleConfig launchFailsEnv initialContextState =
     (Inl (JsError ''Error'' ''Could not launch''), initialContextState)"
  by (simp add: getContext_def launchFailsEnv_def browserEnv_def)

text \<open>
  The theorem of C8 at the examples: the same handle twice, then another handle, and a
  failed launch.
\<close>

theorem C8_witness:
  "getContext exampleConfig (browserEnv 7) initialContextState =
     (Inr \<lparr>ctx_id = 0, browser = 7\<rparr>,
      \<lparr>context' = Some \<lparr>ctx_id = 0, browser = 7\<rparr>, nextObject = Suc 0\<rparr>)
   \<and> getContext exampleConfig (browserEnv 7)
        \<lparr>context' = Some \<lparr>ctx_id = 0, browser = 7\<rparr>, nextObject = Suc 0\<rparr> =
     (Inr \<lparr>ctx_id = 0, browser = 7\<rparr>,
      \<lparr>context' = Some \<lparr>ctx_id = 0, browser = 7\<rparr>, nextObject = Suc 0\<rparr>)
   \<and> (\<exists>c2. fst (getContext exampleConfig (browserEnv 8)
                 \<lparr>context' = Some \<lparr>ctx_id = 0, browser = 7\<rparr>, nextObject = Suc 0\<rparr>) = Inr c2
          \<and> browser c2 = 8 \<and> ctx_id c2 \<noteq> 0)
   \<and> getContext exampleConfig launchFailsEnv initialContextState =
        (Inl (JsError ''Error'' ''Could not launch''), initialContextState)"
proof -
  let ?c = "\<lparr>ctx_id = 0, browser = 7\<rparr>"
  let ?st1 = "\<lparr>context' = Some ?c, nextObject = Suc 0\<rparr>"
  let ?c2 = "\<lparr>ctx_id = Suc 0, browser = 8\<rparr>"
  let ?st2 = "\<lparr>context' = Some ?c2, nextObject = Suc (Suc 0)\<rparr>"
  have wf: "\<forall>c. context' initialContextState = Some c \<longrightarrow> ctx_id c < nextObject initialContextState"
    by (simp add: initialContextState_def)
  have m: "context' ?st1 = Some ?c" by simp
  have e7: "ensureBrowser (browserEnv 7) (browserCall exampleConfig) = Inr (browser ?c)"
    by (simp add: browserEnv_def)
  have e8: "ensureBrowser (browserEnv 8) (browserCall exampleConfig) = Inr 8"
    by (simp add: browserEnv_def)
  have f8: "contextFrom (browserEnv 8) 8 = None" by (simp add: browserEnv_def)
  have ef: "ensureBrowser launchFailsEnv (browserCall exampleConfig)
      = Inl (JsError ''Error'' ''Could not launch'')"
    by (simp add: launchFailsEnv_def browserEnv_def)
  note same = C8_context_memoised[OF first_call_example same_handle_example wf]
  note other = C8_context_memoised[OF first_call_example other_handle_example wf]
  note failed = C8_context_memoised[OF failed_launch_example first_call_example wf]
  from same have "\<forall>c. context' ?st1 = Some c
              \<and> ensureBrowser (browserEnv 7) (browserCall exampleConfig) = Inr (browser c)
            \<longrightarrow> Inr ?c = (Inr c :: js_thrown + McpContext) \<and> ?st1 = ?st1"
    by (elim conjE)
  from other have "\<forall>c b. context' ?st1 = Some c
              \<and> ensureBrowser (browserEnv 8) (browserCall exampleConfig) = Inr b \<and> b \<noteq> browser c
              \<and> contextFrom (browserEnv 8) b = None
            \<longrightarrow> (\<exists>c2. (Inr ?c2 :: js_thrown + McpContext) = Inr c2 \<and> browser c2 = b
                    \<and> ctx_id c2 \<noteq> ctx_id c \<and> context' ?st2 = Some c2)"
    by (elim conjE)
  with m e8 f8 have "\<exists>c2. (Inr ?c2 :: js_thrown + McpContext) = Inr c2 \<and> browser c2 = 8
                    \<and> ctx_id c2 \<noteq> ctx_id ?c \<and> context' ?st2 = Some c2"
    by fastforce
  then have b: "\<exists>c2. fst (getContext exampleConfig (browserEnv 8) ?st1) = Inr c2
          \<and> browser c2 = 8 \<and> ctx_id c2 \<noteq> 0"
    unfolding other_handle_example by auto
  from failed have "\<forall>e. ensureBrowser launchFailsEnv (browserCall exampleConfig) = Inl e
      \<longrightarrow> Inl (JsError ''Error'' ''Could not launch'') = (Inl e :: js_thrown + McpContext)
          \<and> initialContextState = initialContextState"
    by (elim conjE)
  from first_call_example same_handle_example b failed_launch_example
  show ?thesis by (intro conjI)
qed

section \<open>The HTTP transport: routing and the session registry\<close>

lemma sessions_foldl_fireCallback:
  "sessions (foldl (fireCallback session) st evs) sid = Some s \<Longrightarrow>
     sessions st sid = Some s \<or> (SessionInitialized sid \<in> set evs \<and> s = session)"
proof (induction evs arbitrary: st)
  case Nil
  then show ?case by simp
next
  case (Cons ev evs)
  from Cons.IH[OF Cons.prems[simplified]]
  show ?case
    by (cases ev) (auto simp: fireCallback_def split: if_splits)
qed

lemma counters_foldl_fireCallback:
  "nextServer (foldl (fireCallback session) st evs) = nextServer st
   \<and> nextTransport (foldl (fireCallback session) st evs) = nextTransport st"
proof (induction evs arbitrary: st)
  case Nil
  show ?case by simp
next
  case (Cons ev evs)
  have "nextServer (fireCallback session st ev) = nextServer st
      \<and> nextTransport (fireCallback session st ev) = nextTransport st"
    by (cases ev) (simp_all add: fireCallback_def)
  with Cons.IH[of "fireCallback session st ev"] show ?case by simp
qed


lemma sessions_foldl_cong:
  "sessions a = sessions b \<Longrightarrow>
     sessions (foldl (fireCallback s) a evs) = sessions (foldl (fireCallback s) b evs)"
proof (induction evs arbitrary: a b)
  case Nil
  then show ?case by simp
next
  case (Cons ev evs)
  have "sessions (fireCallback s a ev) = sessions (fireCallback s b ev)"
    using Cons.prems by (cases ev) (simp_all add: fireCallback_def)
  from Cons.IH[OF this] show ?case by simp
qed

lemma createNewSession_fails:
  assumes "connectResult env = Some e \<or> (connectResult env = None \<and> transportThrows env = Some e)"
  shows "fst (createNewSession req res env st) =
           res_end ''Internal server error''
             ((if connectResult env = None then foldl transportWrite res (transportWrites env)
               else res)\<lparr>statusCode := 500\<rparr>)
       \<and> logged (snd (createNewSession req res env st)) \<noteq> []
       \<and> last (logged (snd (createNewSession req res env st)))
           = ''HTTP connection error: '' @ js_String e"
  using assms
proof
  assume "connectResult env = Some e"
  then show ?thesis unfolding createNewSession_def Let_def by simp
next
  assume "connectResult env = None \<and> transportThrows env = Some e"
  then show ?thesis unfolding createNewSession_def Let_def by simp
qed

lemma createNewSession_sessions:
  "sessions (snd (createNewSession req res env st)) =
     sessions (foldl (fireCallback \<lparr>transport = nextTransport st, server = nextServer st\<rparr>) st
       (if connectResult env = None then transportEvents env else []))"
proof -
  let ?s = "\<lparr>transport = nextTransport st, server = nextServer st\<rparr>"
  let ?st1 = "st\<lparr>nextServer := Suc (nextServer st), nextTransport := Suc (nextTransport st)\<rparr>"
  have frame: "sessions (foldl (fireCallback ?s) ?st1 (transportEvents env))
      = sessions (foldl (fireCallback ?s) st (transportEvents env))"
    by (rule sessions_foldl_cong) simp
  show ?thesis
  proof (cases "connectResult env")
    case (Some e)
    then show ?thesis unfolding createNewSession_def Let_def by simp
  next
    case None
    with frame show ?thesis unfolding createNewSession_def Let_def
      by (cases "transportThrows env") simp_all
  qed
qed

lemma createNewSession_counters:
  "nextServer (snd (createNewSession req res env st)) = Suc (nextServer st)
   \<and> nextTransport (snd (createNewSession req res env st)) = Suc (nextTransport st)"
proof (cases "connectResult env")
  case (Some e)
  then show ?thesis unfolding createNewSession_def Let_def by simp
next
  case None
  then show ?thesis unfolding createNewSession_def Let_def
    by (cases "transportThrows env") (simp_all add: counters_foldl_fireCallback)
qed

lemma onRequest_sessionless_post:
  assumes "pathname req = ''/mcp''" and "\<not> truthy (mcpSessionId req)" and "httpMethod req = ''POST''"
  shows "onRequest req env st =
           (Inr (fst (createNewSession req freshResponse env st)), snd (createNewSession req freshResponse env st))"
  using assms by (simp add: onRequest_def handleMcpRequest_def split: prod.splits)

lemma new_entry_from_callback:
  assumes "pathname req = ''/mcp''" and "\<not> truthy (mcpSessionId req)"
    and "httpMethod req = ''POST''"
    and "sessions (snd (onRequest req env st)) sid = Some s" and "sessions st sid \<noteq> Some s"
  shows "connectResult env = None \<and> SessionInitialized sid \<in> set (transportEvents env)
       \<and> s = \<lparr>transport = nextTransport st, server = nextServer st\<rparr>"
proof -
  note eq = onRequest_sessionless_post[OF assms(1,2,3), of env st]
  let ?sess = "\<lparr>transport = nextTransport st, server = nextServer st\<rparr>"
  from assms(4) have f: "sessions (foldl (fireCallback ?sess) st
       (if connectResult env = None then transportEvents env else [])) sid = Some s"
    unfolding eq by (simp add: createNewSession_sessions)
  from sessions_foldl_fireCallback[OF f] assms(5)
  have m: "SessionInitialized sid \<in> set (if connectResult env = None then transportEvents env else [])
      \<and> s = ?sess" by blast
  then have "connectResult env = None" by (cases "connectResult env = None") simp_all
  with m show ?thesis by simp
qed

lemma notFound_response:
  "res_end ''Session not found'' (freshResponse\<lparr>statusCode := 404\<rparr>)
     = \<lparr>statusCode = 404, sentStatus = Some 404, headers = [], body = ''Session not found'',
        ended = True\<rparr>"
  by (simp add: res_end_def freshResponse_def nullish_or_def)

lemma invalid_response:
  "res_end ''Invalid request'' (freshResponse\<lparr>statusCode := 400\<rparr>)
     = \<lparr>statusCode = 400, sentStatus = Some 400, headers = [], body = ''Invalid request'',
        ended = True\<rparr>"
  by (simp add: res_end_def freshResponse_def nullish_or_def)

lemma error_response:
  "res_end ''Internal server error'' (freshResponse\<lparr>statusCode := 500\<rparr>)
     = \<lparr>statusCode = 500, sentStatus = Some 500, headers = [], body = ''Internal server error'',
        ended = True\<rparr>"
  by (simp add: res_end_def freshResponse_def nullish_or_def)

lemma res_end_after_head:
  "sentStatus res = Some c \<Longrightarrow> sentStatus (res_end data (res\<lparr>statusCode := k\<rparr>)) = Some c"
  by (simp add: res_end_def nullish_or_def)

text \<open>
  Claim C3. A request to \<^verbatim>\<open>/mcp\<close> that carries a session identifier (a non-empty
  value of the header \<^verbatim>\<open>mcp-session-id\<close>; the code tests the header for truthiness,
  so an empty value counts as no identifier) which is no key of the registry is
  answered with status 404 and the text "Session not found", and the whole module
  state is left as it was: the registry, the log, and the counts of server instances
  and transports made.
\<close>

theorem C3_unknown_session_rejected:
  assumes "pathname req = ''/mcp''"
    and "mcpSessionId req = Some sid" and "sid \<noteq> []"
    and "sessions st sid = None"
  shows "onRequest req env st =
           (Inr \<lparr>statusCode = 404, sentStatus = Some 404, headers = [], body = ''Session not found'', ended = True\<rparr>, st)"
proof -
  from assms(2,3) have t: "truthy (mcpSessionId req)" by (simp add: truthy_def)
  from assms(2) have n: "nullish_or (mcpSessionId req) [] = sid" by (simp add: nullish_or_def)
  have "handleMcpRequest req freshResponse env st =
      (Inr (res_end ''Session not found'' (freshResponse\<lparr>statusCode := 404\<rparr>)), st)"
    unfolding handleMcpRequest_def using t n assms(4) by simp
  then show ?thesis unfolding onRequest_def notFound_response using assms(1) by simp
qed

text \<open>
  The theorem of C3 at the example: the identifier \<^verbatim>\<open>nope\<close> and an empty registry.
\<close>

theorem C3_witness:
  "pathname mcpUnknown = ''/mcp'' \<and> mcpSessionId mcpUnknown = Some ''nope''
   \<and> sessions emptyHttpState ''nope'' = None
   \<and> onRequest mcpUnknown handshakeEnv emptyHttpState =
       (Inr \<lparr>statusCode = 404, sentStatus = Some 404, headers = [], body = ''Session not found'', ended = True\<rparr>,
        emptyHttpState)"
proof -
  have h1: "pathname mcpUnknown = ''/mcp''" by (simp add: mcpUnknown_def)
  have h2: "mcpSessionId mcpUnknown = Some ''nope''" by (simp add: mcpUnknown_def)
  have h3: "''nope'' \<noteq> []" by simp
  have h4: "sessions emptyHttpState ''nope'' = None" by (simp add: emptyHttpState_def)
  from h1 h2 h4 C3_unknown_session_rejected[OF h1 h2 h3 h4, of handshakeEnv]
  show ?thesis by (intro conjI)
qed

text \<open>
  Claim C4. A request to \<^verbatim>\<open>/mcp\<close> without a session identifier: when its method is
  POST it is handled by \<^verbatim>\<open>createNewSession\<close>, which makes exactly one server instance
  and one transport, and every entry the registry holds afterwards that it did not
  hold before was put there by the callback \<^verbatim>\<open>onsessioninitialized\<close> and is the new
  session; for any other method the answer is status 400 and the module state is left
  as it was.
\<close>

theorem C4_sessionless_request:
  assumes "pathname req = ''/mcp''" and "\<not> truthy (mcpSessionId req)"
  shows "(httpMethod req = ''POST'' \<longrightarrow>
            onRequest req env st =
              (Inr (fst (createNewSession req freshResponse env st)), snd (createNewSession req freshResponse env st))
          \<and> nextServer (snd (onRequest req env st)) = Suc (nextServer st)
          \<and> nextTransport (snd (onRequest req env st)) = Suc (nextTransport st)
          \<and> (\<forall>sid s. sessions (snd (onRequest req env st)) sid = Some s
                \<and> sessions st sid \<noteq> Some s
              \<longrightarrow> connectResult env = None
                  \<and> SessionInitialized sid \<in> set (transportEvents env)
                  \<and> s = \<lparr>transport = nextTransport st, server = nextServer st\<rparr>))
       \<and> (httpMethod req \<noteq> ''POST'' \<longrightarrow>
            onRequest req env st =
              (Inr \<lparr>statusCode = 400, sentStatus = Some 400, headers = [], body = ''Invalid request'', ended = True\<rparr>, st))"
proof (intro conjI impI allI)
  assume p: "httpMethod req = ''POST''"
  note eq = onRequest_sessionless_post[OF assms p, of env st]
  show "onRequest req env st =
      (Inr (fst (createNewSession req freshResponse env st)), snd (createNewSession req freshResponse env st))"
    by (rule eq)
  show "nextServer (snd (onRequest req env st)) = Suc (nextServer st)"
    unfolding eq using createNewSession_counters[of req freshResponse env st] by simp
  show "nextTransport (snd (onRequest req env st)) = Suc (nextTransport st)"
    unfolding eq using createNewSession_counters[of req freshResponse env st] by simp
  fix sid s
  assume a: "sessions (snd (onRequest req env st)) sid = Some s \<and> sessions st sid \<noteq> Some s"
  let ?sess = "\<lparr>transport = nextTransport st, server = nextServer st\<rparr>"
  from a have f: "sessions (foldl (fireCallback ?sess) st
       (if connectResult env = None then transportEvents env else [])) sid = Some s"
    unfolding eq by (simp add: createNewSession_sessions)
  from sessions_foldl_fireCallback[OF f] a
  have m: "SessionInitialized sid \<in> set (if connectResult env = None then transportEvents env else [])
      \<and> s = ?sess" by blast
  then show "connectResult env = None" by (cases "connectResult env = None") simp_all
  with m show "SessionInitialized sid \<in> set (transportEvents env)" by simp
  from m show "s = ?sess" by simp
next
  assume p: "httpMethod req \<noteq> ''POST''"
  have "handleMcpRequest req freshResponse env st =
      (Inr (res_end ''Invalid request'' (freshResponse\<lparr>statusCode := 400\<rparr>)), st)"
    unfolding handleMcpRequest_def using assms(2) p by simp
  then show "onRequest req env st =
      (Inr \<lparr>statusCode = 400, sentStatus = Some 400, headers = [], body = ''Invalid request'', ended = True\<rparr>, st)"
    unfolding onRequest_def invalid_response using assms(1) by simp
qed

lemma post_example:
  "onRequest mcpPost handshakeEnv emptyHttpState =
     (Inr \<lparr>statusCode = 200, sentStatus = Some 200,
            headers = [(''Content-Type'', ''application/json'')], body = ''{}'', ended = True\<rparr>,
      \<lparr> sessions = [''s1'' \<mapsto> \<lparr>transport = 0, server = 0\<rparr>],
        logged = [''New session created: s1''],
        nextServer = Suc 0, nextTransport = Suc 0 \<rparr>)"
  by (simp add: onRequest_def handleMcpRequest_def createNewSession_def mcpPost_def
      handshakeEnv_def emptyHttpState_def truthy_def fireCallback_def res_end_def
      freshResponse_def transportWrite_def writeHead_def nullish_or_def Let_def)

text \<open>
  The theorem of C4 at the examples: a POST whose handshake registers \<^verbatim>\<open>s1\<close>, and a GET.
\<close>

theorem C4_witness:
  "pathname mcpPost = ''/mcp'' \<and> \<not> truthy (mcpSessionId mcpPost) \<and> httpMethod mcpPost = ''POST''
   \<and> nextServer (snd (onRequest mcpPost handshakeEnv emptyHttpState)) = Suc (nextServer emptyHttpState)
   \<and> sessions (snd (onRequest mcpPost handshakeEnv emptyHttpState)) ''s1''
        = Some \<lparr>transport = 0, server = 0\<rparr>
   \<and> SessionInitialized ''s1'' \<in> set (transportEvents handshakeEnv)
   \<and> pathname mcpGet = ''/mcp'' \<and> \<not> truthy (mcpSessionId mcpGet) \<and> httpMethod mcpGet \<noteq> ''POST''
   \<and> onRequest mcpGet handshakeEnv emptyHttpState =
        (Inr \<lparr>statusCode = 400, sentStatus = Some 400, headers = [], body = ''Invalid request'', ended = True\<rparr>,
         emptyHttpState)"
proof -
  have h1: "pathname mcpPost = ''/mcp''" by (simp add: mcpPost_def)
  have h2: "\<not> truthy (mcpSessionId mcpPost)" by (simp add: mcpPost_def truthy_def)
  have h3: "httpMethod mcpPost = ''POST''" by (simp add: mcpPost_def)
  have g1: "pathname mcpGet = ''/mcp''" by (simp add: mcpGet_def)
  have g2: "\<not> truthy (mcpSessionId mcpGet)" by (simp add: mcpGet_def truthy_def)
  have g3: "httpMethod mcpGet \<noteq> ''POST''" by (simp add: mcpGet_def)
  note post = C4_sessionless_request[OF h1 h2, of handshakeEnv emptyHttpState,
      THEN conjunct1, THEN mp, OF h3]
  note get = C4_sessionless_request[OF g1 g2, of handshakeEnv emptyHttpState,
      THEN conjunct2, THEN mp, OF g3]
  from post have a: "nextServer (snd (onRequest mcpPost handshakeEnv emptyHttpState))
      = Suc (nextServer emptyHttpState)" by (elim conjE)
  have s: "sessions (snd (onRequest mcpPost handshakeEnv emptyHttpState)) ''s1''
        = Some \<lparr>transport = 0, server = 0\<rparr>"
    unfolding post_example by simp
  have n: "sessions emptyHttpState ''s1'' \<noteq> Some \<lparr>transport = 0, server = 0\<rparr>"
    by (simp add: emptyHttpState_def)
  from post have "\<forall>sid s. sessions (snd (onRequest mcpPost handshakeEnv emptyHttpState)) sid = Some s
                \<and> sessions emptyHttpState sid \<noteq> Some s
              \<longrightarrow> connectResult handshakeEnv = None
                  \<and> SessionInitialized sid \<in> set (transportEvents handshakeEnv)
                  \<and> s = \<lparr>transport = nextTransport emptyHttpState, server = nextServer emptyHttpState\<rparr>"
    by (elim conjE)
  with s n have e: "SessionInitialized ''s1'' \<in> set (transportEvents handshakeEnv)" by blast
  from h1 h2 h3 a s e g1 g2 g3 get show ?thesis by (intro conjI)
qed

text \<open>
  Claim C5. A request to \<^verbatim>\<open>/health\<close> is answered with status 200, the content type
  \<^verbatim>\<open>application/json\<close> and, character for character, the body
  \<^verbatim>\<open>{"status":"healthy","timestamp":"<now>"}\<close>, where \<^verbatim>\<open><now>\<close> is the time stamp of
  the clock; the module state, the registry with it, is left as it was, and the answer
  is the same from every state.
\<close>

theorem C5_health_check:
  assumes "pathname req = ''/health''"
  shows "onRequest req env st =
           (Inr \<lparr> statusCode = 200, sentStatus = Some 200,
                  headers = [(''Content-Type'', ''application/json'')],
                  body = ''{\"status\":\"healthy\",\"timestamp\":\"'' @ now env @ ''\"}'',
                  ended = True \<rparr>, st)
       \<and> (\<forall>st'. fst (onRequest req env st') = fst (onRequest req env st))"
proof -
  have r: "handleHealthCheck (now env) freshResponse =
      Inr \<lparr> statusCode = 200, sentStatus = Some 200,
                  headers = [(''Content-Type'', ''application/json'')],
                  body = ''{\"status\":\"healthy\",\"timestamp\":\"'' @ now env @ ''\"}'',
                  ended = True \<rparr>"
    by (simp add: handleHealthCheck_def res_end_def writeHead_def freshResponse_def
        JSON_stringify_def json_quote_def nullish_or_def)
  have ne: "''/health'' \<noteq> ''/mcp''" by simp
  have "\<And>s. onRequest req env s = (handleHealthCheck (now env) freshResponse, s)"
    unfolding onRequest_def using assms ne by simp
  then show ?thesis unfolding r by simp
qed

text \<open>
  The theorem of C5 at the example request: the body in full.
\<close>

theorem C5_witness:
  "pathname healthGet = ''/health''
   \<and> onRequest healthGet handshakeEnv emptyHttpState =
       (Inr \<lparr> statusCode = 200, sentStatus = Some 200,
              headers = [(''Content-Type'', ''application/json'')],
              body = ''{\"status\":\"healthy\",\"timestamp\":\"2025-01-01T00:00:00.000Z\"}'',
              ended = True \<rparr>, emptyHttpState)"
proof -
  have h: "pathname healthGet = ''/health''" by (simp add: healthGet_def)
  have n: "now handshakeEnv = ''2025-01-01T00:00:00.000Z''" by (simp add: handshakeEnv_def)
  have b: "''{\"status\":\"healthy\",\"timestamp\":\"'' @ ''2025-01-01T00:00:00.000Z'' @ ''\"}''
      = ''{\"status\":\"healthy\",\"timestamp\":\"2025-01-01T00:00:00.000Z\"}''" by simp
  from C5_health_check[OF h, of handshakeEnv emptyHttpState, THEN conjunct1]
  have "onRequest healthGet handshakeEnv emptyHttpState =
       (Inr \<lparr> statusCode = 200, sentStatus = Some 200,
              headers = [(''Content-Type'', ''application/json'')],
              body = ''{\"status\":\"healthy\",\"timestamp\":\"2025-01-01T00:00:00.000Z\"}'',
              ended = True \<rparr>, emptyHttpState)"
    unfolding n b .
  with h show ?thesis by (intro conjI)
qed

lemma late_failure_example:
  "onRequest mcpPost lateFailureEnv emptyHttpState =
     (Inr \<lparr>statusCode = 500, sentStatus = Some 200,
            headers = [(''Content-Type'', ''text/event-stream'')],
            body = ''Internal server error'', ended = True\<rparr>,
      \<lparr> sessions = [''s1'' \<mapsto> \<lparr>transport = 0, server = 0\<rparr>],
        logged = [''New session created: s1'', ''HTTP connection error: Error: boom''],
        nextServer = Suc 0, nextTransport = Suc 0 \<rparr>)"
  by (simp add: onRequest_def handleMcpRequest_def createNewSession_def mcpPost_def
      lateFailureEnv_def handshakeEnv_def emptyHttpState_def truthy_def fireCallback_def
      res_end_def freshResponse_def js_String_def transportWrite_def writeHead_def
      nullish_or_def Let_def)

text \<open>
  Claim C9 as stated fails twice over at a transport that fires
  \<^verbatim>\<open>onsessioninitialized('s1')\<close>, writes the head of its answer (status 200), and then
  throws from \<^verbatim>\<open>handleRequest\<close>: the \<^verbatim>\<open>catch\<close> of \<^verbatim>\<open>createNewSession\<close> assigns 500 to
  \<^verbatim>\<open>res.statusCode\<close> after the head has gone out, so the client has received 200, and it
  removes nothing, so the session \<^verbatim>\<open>s1\<close> is in the registry.
\<close>

theorem C9_counterexample:
  "pathname mcpPost = ''/mcp'' \<and> mcpSessionId mcpPost = None \<and> httpMethod mcpPost = ''POST''
   \<and> connectResult lateFailureEnv = None
   \<and> transportThrows lateFailureEnv = Some (JsError ''Error'' ''boom'')
   \<and> sessions emptyHttpState ''s1'' = None
   \<and> fst (onRequest mcpPost lateFailureEnv emptyHttpState) =
        Inr \<lparr>statusCode = 500, sentStatus = Some 200,
             headers = [(''Content-Type'', ''text/event-stream'')],
             body = ''Internal server error'', ended = True\<rparr>
   \<and> sessions (snd (onRequest mcpPost lateFailureEnv emptyHttpState)) ''s1''
        = Some \<lparr>transport = 0, server = 0\<rparr>"
  unfolding late_failure_example
  by (simp add: mcpPost_def lateFailureEnv_def handshakeEnv_def emptyHttpState_def)

text \<open>
  Claim C9, amended. When \<^verbatim>\<open>connect\<close> or the first \<^verbatim>\<open>handleRequest\<close> of a
  session-less POST throws, the fault is logged, and the \<^verbatim>\<open>catch\<close> sets the status code
  of the response to 500 and calls \<^verbatim>\<open>end\<close> with the text "Internal server error", on
  the response as the transport left it. The client receives status 500 with that text
  when nothing was written to the response before the throw, as is always so when
  \<^verbatim>\<open>connect\<close> threw; when the transport had already sent the head, the status it
  sent stands. When \<^verbatim>\<open>connect\<close> threw the registry is unchanged, and in every case an
  entry that is new in the registry was put there by \<^verbatim>\<open>onsessioninitialized\<close> before
  the throw.
\<close>

theorem C9_failed_session_creation:
  assumes "pathname req = ''/mcp''" and "\<not> truthy (mcpSessionId req)"
    and "httpMethod req = ''POST''"
    and "connectResult env = Some e \<or> (connectResult env = None \<and> transportThrows env = Some e)"
  shows "fst (onRequest req env st) =
           Inr (res_end ''Internal server error''
                  ((if connectResult env = None
                    then foldl transportWrite freshResponse (transportWrites env)
                    else freshResponse)\<lparr>statusCode := 500\<rparr>))
       \<and> (connectResult env = Some e \<or> transportWrites env = [] \<longrightarrow>
            fst (onRequest req env st) =
              Inr \<lparr>statusCode = 500, sentStatus = Some 500, headers = [],
                   body = ''Internal server error'', ended = True\<rparr>)
       \<and> (\<forall>c. connectResult env = None
              \<and> sentStatus (foldl transportWrite freshResponse (transportWrites env)) = Some c
            \<longrightarrow> (\<exists>res. fst (onRequest req env st) = Inr res \<and> sentStatus res = Some c))
       \<and> logged (snd (onRequest req env st)) \<noteq> []
       \<and> last (logged (snd (onRequest req env st))) = ''HTTP connection error: '' @ js_String e
       \<and> (connectResult env = Some e \<longrightarrow> sessions (snd (onRequest req env st)) = sessions st)
       \<and> (\<forall>sid s. sessions (snd (onRequest req env st)) sid = Some s
              \<and> sessions st sid \<noteq> Some s
            \<longrightarrow> connectResult env = None
                \<and> SessionInitialized sid \<in> set (transportEvents env))"
proof -
  note eq = onRequest_sessionless_post[OF assms(1,2,3), of env st]
  note f = createNewSession_fails[OF assms(4), of req freshResponse st]
  let ?left = "if connectResult env = None
               then foldl transportWrite freshResponse (transportWrites env)
               else freshResponse"
  have a: "fst (onRequest req env st) =
      Inr (res_end ''Internal server error'' (?left\<lparr>statusCode := 500\<rparr>))"
    unfolding eq using f by simp
  have a1: "connectResult env = Some e \<or> transportWrites env = [] \<longrightarrow>
            fst (onRequest req env st) =
              Inr \<lparr>statusCode = 500, sentStatus = Some 500, headers = [],
                   body = ''Internal server error'', ended = True\<rparr>"
  proof
    assume "connectResult env = Some e \<or> transportWrites env = []"
    then have "?left = freshResponse" by auto
    with a show "fst (onRequest req env st) =
              Inr \<lparr>statusCode = 500, sentStatus = Some 500, headers = [],
                   body = ''Internal server error'', ended = True\<rparr>"
      by (simp add: error_response)
  qed
  have a2: "\<forall>c. connectResult env = None
              \<and> sentStatus (foldl transportWrite freshResponse (transportWrites env)) = Some c
            \<longrightarrow> (\<exists>res. fst (onRequest req env st) = Inr res \<and> sentStatus res = Some c)"
  proof (intro allI impI)
    fix c
    assume h: "connectResult env = None
              \<and> sentStatus (foldl transportWrite freshResponse (transportWrites env)) = Some c"
    then have "sentStatus ?left = Some c" by simp
    from res_end_after_head[OF this, of "''Internal server error''" 500] a
    show "\<exists>res. fst (onRequest req env st) = Inr res \<and> sentStatus res = Some c" by simp
  qed
  have b: "logged (snd (onRequest req env st)) \<noteq> []"
    unfolding eq using f by simp
  have c: "last (logged (snd (onRequest req env st))) = ''HTTP connection error: '' @ js_String e"
    unfolding eq using f by simp
  have d: "connectResult env = Some e \<longrightarrow> sessions (snd (onRequest req env st)) = sessions st"
    unfolding eq by (simp add: createNewSession_sessions)
  have e: "\<forall>sid s. sessions (snd (onRequest req env st)) sid = Some s
              \<and> sessions st sid \<noteq> Some s
            \<longrightarrow> connectResult env = None
                \<and> SessionInitialized sid \<in> set (transportEvents env)"
    using new_entry_from_callback[OF assms(1,2,3), of env st] by blast
  from a a1 a2 b c d e show ?thesis by (intro conjI)
qed

text \<open>
  The amended theorem of C9 at the examples: when \<^verbatim>\<open>connect\<close> throws the client
  receives 500 and the registry is unchanged; when the transport throws after it sent
  the head, the status 200 it sent stands.
\<close>

theorem C9_witness:
  "pathname mcpPost = ''/mcp'' \<and> \<not> truthy (mcpSessionId mcpPost) \<and> httpMethod mcpPost = ''POST''
   \<and> connectResult connectFailsEnv = Some (JsError ''Error'' ''refused'')
   \<and> fst (onRequest mcpPost connectFailsEnv emptyHttpState) =
        Inr \<lparr>statusCode = 500, sentStatus = Some 500, headers = [],
             body = ''Internal server error'', ended = True\<rparr>
   \<and> last (logged (snd (onRequest mcpPost connectFailsEnv emptyHttpState)))
        = ''HTTP connection error: Error: refused''
   \<and> sessions (snd (onRequest mcpPost connectFailsEnv emptyHttpState)) = sessions emptyHttpState
   \<and> connectResult lateFailureEnv = None
   \<and> transportThrows lateFailureEnv = Some (JsError ''Error'' ''boom'')
   \<and> sentStatus (foldl transportWrite freshResponse (transportWrites lateFailureEnv)) = Some 200
   \<and> (\<exists>res. fst (onRequest mcpPost lateFailureEnv emptyHttpState) = Inr res
          \<and> sentStatus res = Some 200)"
proof -
  have h1: "pathname mcpPost = ''/mcp''" by (simp add: mcpPost_def)
  have h2: "\<not> truthy (mcpSessionId mcpPost)" by (simp add: mcpPost_def truthy_def)
  have h3: "httpMethod mcpPost = ''POST''" by (simp add: mcpPost_def)
  have c: "connectResult connectFailsEnv = Some (JsError ''Error'' ''refused'')"
    by (simp add: connectFailsEnv_def)
  then have h4: "connectResult connectFailsEnv = Some (JsError ''Error'' ''refused'')
      \<or> (connectResult connectFailsEnv = None
          \<and> transportThrows connectFailsEnv = Some (JsError ''Error'' ''refused''))"
    by (rule disjI1)
  have l1: "connectResult lateFailureEnv = None"
    by (simp add: lateFailureEnv_def handshakeEnv_def)
  have l2: "transportThrows lateFailureEnv = Some (JsError ''Error'' ''boom'')"
    by (simp add: lateFailureEnv_def)
  from l1 l2 have h5: "connectResult lateFailureEnv = Some (JsError ''Error'' ''boom'')
      \<or> (connectResult lateFailureEnv = None
          \<and> transportThrows lateFailureEnv = Some (JsError ''Error'' ''boom''))"
    by (intro disjI2 conjI)
  have l3: "sentStatus (foldl transportWrite freshResponse (transportWrites lateFailureEnv))
      = Some 200"
    by (simp add: lateFailureEnv_def transportWrite_def writeHead_def freshResponse_def)
  note th = C9_failed_session_creation[OF h1 h2 h3 h4, of emptyHttpState]
  note late = C9_failed_session_creation[OF h1 h2 h3 h5, of emptyHttpState]
  from th have "connectResult connectFailsEnv = Some (JsError ''Error'' ''refused'')
        \<or> transportWrites connectFailsEnv = [] \<longrightarrow>
      fst (onRequest mcpPost connectFailsEnv emptyHttpState) =
        Inr \<lparr>statusCode = 500, sentStatus = Some 500, headers = [],
             body = ''Internal server error'', ended = True\<rparr>"
    by (elim conjE)
  with c have a: "fst (onRequest mcpPost connectFailsEnv emptyHttpState) =
        Inr \<lparr>statusCode = 500, sentStatus = Some 500, headers = [],
             body = ''Internal server error'', ended = True\<rparr>"
    by blast
  from th have "last (logged (snd (onRequest mcpPost connectFailsEnv emptyHttpState)))
        = ''HTTP connection error: '' @ js_String (JsError ''Error'' ''refused'')"
    by (elim conjE)
  then have b: "last (logged (snd (onRequest mcpPost connectFailsEnv emptyHttpState)))
        = ''HTTP connection error: Error: refused''"
    by (simp add: js_String_def)
  from th have "connectResult connectFailsEnv = Some (JsError ''Error'' ''refused'')
      \<longrightarrow> sessions (snd (onRequest mcpPost connectFailsEnv emptyHttpState)) = sessions emptyHttpState"
    by (elim conjE)
  then have d: "sessions (snd (onRequest mcpPost connectFailsEnv emptyHttpState)) = sessions emptyHttpState"
    using c by (rule mp)
  from late have "\<forall>c. connectResult lateFailureEnv = None
        \<and> sentStatus (foldl transportWrite freshResponse (transportWrites lateFailureEnv)) = Some c
      \<longrightarrow> (\<exists>res. fst (onRequest mcpPost lateFailureEnv emptyHttpState) = Inr res
            \<and> sentStatus res = Some c)"
    by (elim conjE)
  with l1 l3 have e: "\<exists>res. fst (onRequest mcpPost lateFailureEnv emptyHttpState) = Inr res
          \<and> sentStatus res = Some 200"
    by blast
  from h1 h2 h3 c a b d l1 l2 l3 e show ?thesis by (intro conjI)
qed
section \<open>The invocation pipeline and the dispatch guard\<close>








lemma thrown_finished: "finished (fst (thrown tool err st lines))"
  by (simp add: thrown_def finished_def)
























lemma finalization_failure_soft_lands:
  assumes "getContext config env st = (Inr ctx, st')"
    and "detectOpenDevToolsWindows env = None" and "handler env = None"
    and "handle env = Inl error"
  shows "toolCallback config tool params env st =
           (Inr \<lparr>content = [TextContent (errorText error)], isError = Some True\<rparr>, st',
            [name tool @ '' request: '' @ params, name tool @ '' context: resolved''])"
  using assms by (simp add: toolCallback_def tryBlock_def Let_def)

lemma handler_throw_reraised:
  assumes "getContext config env st = (Inr ctx, st')"
    and "detectOpenDevToolsWindows env = None" and "handler env = Some err"
    and "err \<noteq> JsNull" and "err \<noteq> JsUndefined"
  shows "toolCallback config tool params env st =
           (Inl err, st',
            [name tool @ '' request: '' @ params, name tool @ '' context: resolved'',
             name tool @ '' error: '' @ (case err of JsError n m \<Rightarrow> m | _ \<Rightarrow> ''undefined'')])"
  using assms by (cases err) (simp_all add: toolCallback_def tryBlock_def catchBlock_def Let_def)

lemma handler_throw_is_fault:
  assumes "handler env = Some err"
  shows "\<exists>e. fst (toolCallback config tool params env st) = Inl e"
  using assms
  by (cases "getContext config env st"; cases "fst (getContext config env st)";
      cases "detectOpenDevToolsWindows env")
     (simp_all add: toolCallback_def tryBlock_def Let_def)

text \<open>
  The stretches of the callback, run one after the other on a new server, give what
  the callback gives as a whole: the two descriptions of the code agree.
\<close>

lemma run_alone:
  assumes "toolCallback config (inv_tool (calls i)) (inv_params (calls i)) (inv_env (calls i))
             (closure newServer) = (r, st', lines)"
  shows "stages (run config calls [i, i, i, i, i] newServer) i
           = (case r of Inl e \<Rightarrow> Failed e | Inr v \<Rightarrow> Done v)
       \<and> closure (run config calls [i, i, i, i, i] newServer) = st'
       \<and> logs (run config calls [i, i, i, i, i] newServer) = lines
       \<and> toolMutex (run config calls [i, i, i, i, i] newServer) = \<lparr>locked = False, acquirers = []\<rparr>"
proof -
  let ?env = "inv_env (calls i)"
  obtain rc stc where g: "getContext config ?env \<lparr>context' = None, nextObject = 0\<rparr> = (rc, stc)"
    by (metis prod.exhaust)
  note defs = run_def step_def newServer_def acquire_def release_def dispose_def bodyStep_def
    thrown_def holding_def finished_def toolCallback_def tryBlock_def Let_def
  show ?thesis
  proof (cases rc)
    case (Inl e)
    with g assms show ?thesis by (auto simp: defs)
  next
    case (Inr ctx)
    show ?thesis
    proof (cases "detectOpenDevToolsWindows ?env")
      case (Some e)
      with g Inr assms show ?thesis by (auto simp: defs)
    next
      case None
      note d = this
      show ?thesis
      proof (cases "handler ?env")
        case (Some e)
        with g Inr d assms show ?thesis by (auto simp: defs)
      next
        case None
        with g Inr d assms show ?thesis by (cases "handle ?env") (auto simp: defs)
      qed
    qed
  qed
qed

text \<open>
  Claim C1 at an invocation whose handler rejects with \<^verbatim>\<open>undefined\<close>: the outer
  \<^verbatim>\<open>catch\<close> throws a \<^verbatim>\<open>TypeError\<close> when it reads \<^verbatim>\<open>error.message\<close>, so no error line
  is logged and the value that reaches the transport is not the one the handler threw.
  (The text of the message is the engine's.) The lemmas above give the rest of the
  claim: a failed finalization yields the error result, and a throw of any other value
  is logged and thrown on unchanged.
\<close>

theorem C1_undefined_rejection_not_logged:
  "toolCallback exampleConfig (exampleTools ! 2) ''{}''
       ((browserEnv 7)\<lparr>handler := Some JsUndefined\<rparr>) initialContextState =
     (Inl (JsError ''TypeError'' ''Cannot read properties of undefined (reading 'message')''),
      \<lparr>context' = Some \<lparr>ctx_id = 0, browser = 7\<rparr>, nextObject = Suc 0\<rparr>,
      [''click request: {}'', ''click context: resolved''])"
  by (simp add: toolCallback_def tryBlock_def catchBlock_def getContext_def buildContext_def
      browserEnv_def initialContextState_def exampleTools_def Let_def)

end
